theory Spec2Isabelle
  imports Complex_Main "HOL-Library.Sublist"
begin

section \<open>The resume analysis handlers\<close>

text \<open>
  The repository holds three copies of one HTTP handler, each written for another
  hosting convention:
  \<^item> \<^verbatim>\<open>functions/api/getAnalysis.js\<close>: \<^verbatim>\<open>onRequestPost\<close>, a Cloudflare Pages
    function that calls the provider with \<^verbatim>\<open>fetch\<close>;
  \<^item> \<^verbatim>\<open>untitled folder 9/API/gtAnalysis.js\<close>: \<^verbatim>\<open>handler\<close>, a Vercel function
    that calls the provider through its SDK;
  \<^item> \<^verbatim>\<open>untitled folder 9/functions:/api:/getAnalysis.js\<close>: \<^verbatim>\<open>onRequest\<close>, a
    Cloudflare Worker written like the Vercel function.

  Each handler is embedded as a function of its inputs and of the collaborator it calls
  (\<^verbatim>\<open>fetch\<close>, or the SDK's \<^verbatim>\<open>generateContent\<close>). A handler returns its HTTP
  response together with the list of calls it made to the collaborator and the entries
  it wrote with \<^verbatim>\<open>console.error\<close>. A JavaScript exception is a value \<open>Inl message\<close>;
  the handlers read nothing of an exception but its \<^verbatim>\<open>message\<close>. The messages of the
  engine's own TypeErrors are written in V8's wording.
\<close>

subsection \<open>JavaScript values\<close>

text \<open>
  The request body and the provider's response are parsed JSON, and JavaScript checks
  no type: every field can hold any JSON value, or be absent. A number is given by what
  the handlers can observe of it: whether it is truthy (other than \<^verbatim>\<open>0\<close>), and the
  string that converting it gives. An object lists its own properties, each once.
\<close>

datatype jsval =
    Undefined
  | Null
  | Bool bool
  | Num bool string
  | Str string
  | Arr "jsval list"
  | Obj "(string \<times> jsval) list"

text \<open>Truthiness, as \<^verbatim>\<open>!v\<close>, \<^verbatim>\<open>if (v)\<close>, \<^verbatim>\<open>a && b\<close> and \<^verbatim>\<open>a || b\<close> read it.\<close>

fun truthy :: "jsval \<Rightarrow> bool" where
  "truthy Undefined = False"
| "truthy Null = False"
| "truthy (Bool b) = b"
| "truthy (Num nonzero shown) = nonzero"
| "truthy (Str s) = (s \<noteq> [])"
| "truthy (Arr xs) = True"
| "truthy (Obj kvs) = True"

definition nullish :: "jsval \<Rightarrow> bool" where
  "nullish v = (v = Undefined \<or> v = Null)"

text \<open>Sequencing of steps that can throw: the first exception ends the sequence.\<close>

definition and_then :: "string + 'a \<Rightarrow> ('a \<Rightarrow> string + 'b) \<Rightarrow> string + 'b" where
  "and_then r f = (case r of Inl e \<Rightarrow> Inl e | Inr x \<Rightarrow> f x)"

text \<open>
  The string a template literal puts in for \<^verbatim>\<open>${v}\<close>, and \<^verbatim>\<open>new Error(v)\<close> takes as
  its message. An array is joined with commas, \<^verbatim>\<open>null\<close> elements giving the empty
  string. An object gives \<^verbatim>\<open>[object Object]\<close>, unless it has a property \<^verbatim>\<open>toString\<close>
  of its own: a JSON value is never callable, the object cannot be converted, and a
  TypeError is thrown.
\<close>

fun to_string :: "jsval \<Rightarrow> string + string"
  and join :: "jsval list \<Rightarrow> string + string" where
  "to_string Undefined = Inr ''undefined''"
| "to_string Null = Inr ''null''"
| "to_string (Bool b) = Inr (if b then ''true'' else ''false'')"
| "to_string (Num nonzero shown) = Inr shown"
| "to_string (Str s) = Inr s"
| "to_string (Arr xs) = join xs"
| "to_string (Obj kvs) =
     (if map_of kvs ''toString'' \<noteq> None
      then Inl ''Cannot convert object to primitive value''
      else Inr ''[object Object]'')"
| "join [] = Inr []"
| "join (x # xs) =
     (case (if x = Undefined \<or> x = Null then Inr [] else to_string x) of
        Inl e \<Rightarrow> Inl e
      | Inr s \<Rightarrow>
          if xs = [] then Inr s
          else (case join xs of Inl e \<Rightarrow> Inl e | Inr rest \<Rightarrow> Inr (s @ '','' @ rest)))"

text \<open>\<^verbatim>\<open>v || 'literal'\<close>.\<close>

definition or_default :: "jsval \<Rightarrow> string \<Rightarrow> jsval" where
  "or_default v d = (if truthy v then v else Str d)"

text \<open>
  Reading a property. The names the handlers read are on no prototype, so only an
  object has them, as its own. \<open>property\<close> is the optional read \<^verbatim>\<open>v?.name\<close>, which gives
  \<^verbatim>\<open>undefined\<close> for \<^verbatim>\<open>undefined\<close> and \<^verbatim>\<open>null\<close>; \<open>read\<close> is the plain read
  \<^verbatim>\<open>v.name\<close>, which throws for them.
\<close>

fun property :: "jsval \<Rightarrow> string \<Rightarrow> jsval" where
  "property (Obj kvs) name = (case map_of kvs name of None \<Rightarrow> Undefined | Some v \<Rightarrow> v)"
| "property v name = Undefined"

definition cannot_read :: "jsval \<Rightarrow> string \<Rightarrow> string" where
  "cannot_read v name =
     ''Cannot read properties of '' @ (if v = Null then ''null'' else ''undefined'') @
     '' (reading '' @ [CHR 0x27] @ name @ [CHR 0x27] @ '')''"

definition read :: "jsval \<Rightarrow> string \<Rightarrow> string + jsval" where
  "read v name = (if nullish v then Inl (cannot_read v name) else Inr (property v name))"

text \<open>
  The element \<^verbatim>\<open>v?.[0]\<close>: the first element of an array, the first character of a
  string, the property \<^verbatim>\<open>0\<close> of an object. \<open>read_first\<close> is \<^verbatim>\<open>v[0]\<close>.
\<close>

fun first_element :: "jsval \<Rightarrow> jsval" where
  "first_element (Arr xs) = (case xs of [] \<Rightarrow> Undefined | x # rest \<Rightarrow> x)"
| "first_element (Str s) = (case s of [] \<Rightarrow> Undefined | c # rest \<Rightarrow> Str [c])"
| "first_element (Obj kvs) = (case map_of kvs ''0'' of None \<Rightarrow> Undefined | Some v \<Rightarrow> v)"
| "first_element v = Undefined"

definition read_first :: "jsval \<Rightarrow> string + jsval" where
  "read_first v = (if nullish v then Inl (cannot_read v ''0'') else Inr (first_element v))"

text \<open>
  \<^verbatim>\<open>s.replace(a, b)\<close> for one-character strings \<open>a\<close> and \<open>b\<close>: only the first
  occurrence is replaced.
\<close>

fun replace_first :: "char \<Rightarrow> char \<Rightarrow> string \<Rightarrow> string" where
  "replace_first a b [] = []"
| "replace_first a b (c # cs) = (if c = a then b # cs else c # replace_first a b cs)"

subsection \<open>The request\<close>

text \<open>
  \<^verbatim>\<open>const { resumeText, type, location, datePosted } = source\<close>: destructuring
  \<^verbatim>\<open>undefined\<close> or \<^verbatim>\<open>null\<close> throws; any other value gives the four properties,
  \<open>Undefined\<close> where it has none. \<open>expr\<close> is the source expression, which the
  engine names in the message.
\<close>

record request_data =
  resumeText :: jsval
  type :: jsval
  location :: jsval
  datePosted :: jsval

definition body_fields :: "jsval \<Rightarrow> request_data" where
  "body_fields v =
     \<lparr>resumeText = property v ''resumeText'', type = property v ''type'',
      location = property v ''location'', datePosted = property v ''datePosted''\<rparr>"

definition destructure :: "string \<Rightarrow> jsval \<Rightarrow> string + request_data" where
  "destructure expr v =
     (if nullish v then
        Inl (''Cannot destructure property '' @ [CHR 0x27] @ ''resumeText'' @ [CHR 0x27] @ '' of '' @
             [CHR 0x27] @ expr @ [CHR 0x27] @ '' as it is '' @
             (if v = Null then ''null'' else ''undefined'') @ ''.'')
      else Inr (body_fields v))"

text \<open>
  The Cloudflare \<^verbatim>\<open>context\<close>: the request's method, the outcome of
  \<^verbatim>\<open>await request.json()\<close> (the parser's exception or the parsed value) and the
  binding \<^verbatim>\<open>env.GEMINI_API_KEY\<close>.
\<close>

record cf_context =
  request_method :: string
  request_json :: "string + jsval"
  env_GEMINI_API_KEY :: jsval

text \<open>
  The Vercel request: the platform has parsed the body before the handler runs;
  \<^verbatim>\<open>request.body\<close> is \<^verbatim>\<open>undefined\<close> for a request without a body.
\<close>

record vercel_request =
  req_method :: string
  req_body :: jsval

subsection \<open>The response and the trace of a run\<close>

text \<open>One returned source, \<^verbatim>\<open>{ uri, title }\<close>.\<close>

record web_source =
  uri :: jsval
  title :: jsval

text \<open>The JSON body a handler sends: \<^verbatim>\<open>{text, sources}\<close> or \<^verbatim>\<open>{error}\<close>.\<close>

datatype body = Payload jsval "web_source list" | ErrorPayload string

record http_response =
  status :: nat
  body :: body

text \<open>What \<^verbatim>\<open>console.error(label, detail)\<close> was given.\<close>

datatype log_detail = ErrorMessage string | JsonValue jsval

type_synonym log_entry = "string \<times> log_detail"

record 'call run =
  response :: http_response
  upstream_calls :: "'call list"
  console_error :: "log_entry list"

subsection \<open>Response extraction\<close>

text \<open>
  The three files share these lines word for word:
  \<^verbatim>\<open>
  let sources = [];
  if (groundingMetadata && groundingMetadata.groundingAttributions) {
      sources = groundingMetadata.groundingAttributions
          .map(attribution => ({ uri: attribution.web?.uri, title: attribution.web?.title }))
          .filter(source => source.uri && source.title);
  }
  \<close>
  The callback of \<^verbatim>\<open>map\<close> reads \<^verbatim>\<open>attribution.web\<close> plainly, so it throws for an
  entry that is \<^verbatim>\<open>null\<close>; \<^verbatim>\<open>map\<close> runs the callback on the entries in their order and
  ends at the first exception. Only an array has \<^verbatim>\<open>map\<close>.
\<close>

definition to_source :: "jsval \<Rightarrow> string + web_source" where
  "to_source attribution =
     and_then (read attribution ''web'')
       (\<lambda>w. Inr \<lparr>uri = property w ''uri'', title = property w ''title''\<rparr>)"

fun map_sources :: "jsval list \<Rightarrow> string + web_source list" where
  "map_sources [] = Inr []"
| "map_sources (a # rest) =
     and_then (to_source a) (\<lambda>s. and_then (map_sources rest) (\<lambda>ss. Inr (s # ss)))"

definition valid_source :: "web_source \<Rightarrow> bool" where
  "valid_source s = (truthy (uri s) \<and> truthy (title s))"

definition extract_sources :: "jsval \<Rightarrow> string + web_source list" where
  "extract_sources groundingMetadata =
     (if truthy groundingMetadata \<and> truthy (property groundingMetadata ''groundingAttributions'') then
        (case property groundingMetadata ''groundingAttributions'' of
           Arr atts \<Rightarrow> and_then (map_sources atts) (\<lambda>ss. Inr (filter valid_source ss))
         | other \<Rightarrow> Inl ''groundingMetadata.groundingAttributions.map is not a function'')
      else Inr [])"

section \<open>The Pages function: \<^verbatim>\<open>onRequestPost\<close>\<close>

subsection \<open>The prompt templates\<close>

text \<open>The \<^verbatim>\<open>jobs\<close> template (lines 26-38), cut at its two interpolations: the text before the location,\<close>

definition jobs_template_1 :: string where
  "jobs_template_1 =
     ''\<newline>'' @
     ''                    You are an expert AI job search assistant.\<newline>'' @
     ''                    1.  Analyze the provided resume (text provided by the user).\<newline>'' @
     ''                    2.  Use the Google Search tool to find relevant, recent job postings.\<newline>'' @
     ''                    3.  **FILTER** your search based on these user-provided filters:\<newline>'' @
     ''                        - Location: \"''"

text \<open>the text between the location and the posting date,\<close>

definition jobs_template_2 :: string where
  "jobs_template_2 =
     ''\"\<newline>'' @
     ''                        - Date Posted: \"''"

text \<open>and the text after the posting date.\<close>

definition jobs_template_3 :: string where
  "jobs_template_3 =
     ''\"\<newline>'' @
     ''                    4.  Return a list of around 20 of the **most relevant** job postings.\<newline>'' @
     ''                    5.  **CRITICAL:** You MUST format each posting as a Markdown link: [Job Title - Company](ORIGINAL_JOB_POSTING_URL). Do not return links to Google search results.\<newline>'' @
     ''                    6.  After the job list, create a section named \"## Networking Contacts\" and find 3-5 relevant networking contacts (Recruiters, Hiring Managers) at those companies.\<newline>'' @
     ''                    7.  Format contacts as: [Full Name - Title at Company](LinkedIn_URL or Company_Profile_URL).\<newline>'' @
     ''                    8.  If no jobs or contacts are found, state that clearly. Do not invent results.\<newline>'' @
     ''                ''"

text \<open>The \<^verbatim>\<open>critique\<close> template (lines 44-52) has no interpolation.\<close>

definition critique_template :: string where
  "critique_template =
     ''\<newline>'' @
     ''                    You are an expert resume reviewer.\<newline>'' @
     ''                    1.  Analyze the provided resume (text provided by the user).\<newline>'' @
     ''                    2.  Provide a concise, constructive critique.\<newline>'' @
     ''                    3.  Structure your critique with a \"## Resume Critique\" header.\<newline>'' @
     ''                    4.  Include sections for \"Strengths\" and \"Areas for Improvement\".\<newline>'' @
     ''                    5.  Use bullet points for clear, actionable advice.\<newline>'' @
     ''                    6.  Do NOT use the Google Search tool. Base your critique only on the text.\<newline>'' @
     ''                ''"

text \<open>The \<^verbatim>\<open>contacts\<close> template (lines 57-65), cut at the location.\<close>

definition contacts_template_1 :: string where
  "contacts_template_1 =
     ''\<newline>'' @
     ''                    You are an expert networking assistant.\<newline>'' @
     ''                    1.  Analyze the provided resume to understand the user's industry and key roles (text provided by the user).\<newline>'' @
     ''                    2.  Use the Google Search tool to find 5-10 relevant networking contacts (Recruiters, Hiring Managers, industry leaders) based on that resume.\<newline>'' @
     ''                    3.  **FILTER** your search based on the user-provided location: \"''"

text \<open>The rest of the \<^verbatim>\<open>contacts\<close> template.\<close>

definition contacts_template_2 :: string where
  "contacts_template_2 =
     ''\".\<newline>'' @
     ''                    4.  Return a list with a \"## Networking Contacts\" header.\<newline>'' @
     ''                    5.  **CRITICAL:** You MUST format each contact as: [Full Name - Title at Company](LinkedIn_URL or Company_Profile_URL).\<newline>'' @
     ''                    6.  Do not return links to Google search results.\<newline>'' @
     ''                ''"

subsection \<open>The outbound call\<close>

datatype tool = google_search

text \<open>
  The payload of lines 75-86:
  \<^verbatim>\<open>{ contents: [{ role: "user", parts: [{ text }] }], systemInstruction: { parts: [{ text }] }, tools }\<close>.
  A content is its role with the texts of its parts.
\<close>

record payload =
  contents :: "(string \<times> string list) list"
  systemInstruction :: "string list"
  tools :: "tool list"

record fetch_request =
  url :: string
  fetch_method :: string
  content_type :: string
  fetch_body :: payload

text \<open>
  What \<^verbatim>\<open>fetch\<close> resolves to: the flag \<^verbatim>\<open>ok\<close> and the outcome of
  \<^verbatim>\<open>await geminiResponse.json()\<close>.
\<close>

record fetch_response =
  ok :: bool
  json :: "string + jsval"

subsection \<open>The handler\<close>

text \<open>
  The \<^verbatim>\<open>switch (type)\<close> of lines 24-72. It compares with \<^verbatim>\<open>===\<close>, so only the three
  strings select a template; the \<^verbatim>\<open>default\<close> branch throws. A template converts what it
  interpolates, the location before the posting date.
\<close>

definition build_prompt :: "request_data \<Rightarrow> string + (string \<times> tool list)" where
  "build_prompt d =
     (if type d = Str ''jobs'' then
        and_then (to_string (or_default (location d) ''any'')) (\<lambda>loc.
        and_then (to_string (or_default (datePosted d) ''any'')) (\<lambda>posted.
          Inr (jobs_template_1 @ loc @ jobs_template_2 @ posted @ jobs_template_3,
               [google_search])))
      else if type d = Str ''critique'' then
        Inr (critique_template, [])
      else if type d = Str ''contacts'' then
        and_then (to_string (or_default (location d) ''any'')) (\<lambda>loc.
          Inr (contacts_template_1 @ loc @ contacts_template_2, [google_search]))
      else Inl ''Invalid analysis type.'')"

definition API_URL :: "jsval \<Rightarrow> string + string" where
  "API_URL key =
     and_then (to_string key) (\<lambda>k. Inr
       (''https://generativelanguage.googleapis.com/v1beta/models/gemini-2.5-flash-preview-09-2025:generateContent?key='' @ k))"

definition fetch_call :: "string \<Rightarrow> string \<Rightarrow> string \<Rightarrow> tool list \<Rightarrow> fetch_request" where
  "fetch_call api_url resume systemPrompt ts =
     \<lparr>url = api_url,
      fetch_method = ''POST'',
      content_type = ''application/json'',
      fetch_body =
        \<lparr>contents = [(''user'', [''Here is my resume:\<newline>\<newline>'' @ resume])],
         systemInstruction = [systemPrompt],
         tools = ts\<rparr>\<rparr>"

text \<open>
  Steps 1 to 4, everything before the call: parse the body, destructure it, check the
  key, build the URL, the prompt and the payload. Each step can throw.
\<close>

definition prepare :: "cf_context \<Rightarrow> string + fetch_request" where
  "prepare ctx =
     and_then (request_json ctx) (\<lambda>requestData.
     and_then (destructure ''requestData'' requestData) (\<lambda>d.
       if \<not> truthy (env_GEMINI_API_KEY ctx) then Inl ''API key is not configured.''
       else
         and_then (API_URL (env_GEMINI_API_KEY ctx)) (\<lambda>api_url.
         and_then (build_prompt d) (\<lambda>(systemPrompt, ts).
         and_then (to_string (resumeText d)) (\<lambda>resume.
           Inr (fetch_call api_url resume systemPrompt ts))))))"

text \<open>
  The error thrown at line 98 for a response that is not \<^verbatim>\<open>ok\<close>:
  \<^verbatim>\<open>new Error(errorBody.error?.message || "Failed to call Gemini API.")\<close>. Reading
  \<^verbatim>\<open>errorBody.error\<close> and converting the message can throw themselves; either way an
  exception with a message leaves the \<^verbatim>\<open>try\<close> block.
\<close>

definition upstream_error :: "jsval \<Rightarrow> string" where
  "upstream_error errorBody =
     (case and_then (read errorBody ''error'')
             (\<lambda>er. to_string (or_default (property er ''message'') ''Failed to call Gemini API.'')) of
        Inl e \<Rightarrow> e
      | Inr msg \<Rightarrow> msg)"

text \<open>
  Step 6, lines 104-116:
  \<^verbatim>\<open>candidate = geminiResult.candidates?.[0]\<close>,
  \<^verbatim>\<open>text = candidate?.content?.parts?.[0]?.text || "No response text found."\<close>, and the
  sources of \<^verbatim>\<open>candidate?.groundingMetadata\<close>.
\<close>

definition first_candidate :: "jsval \<Rightarrow> string + jsval" where
  "first_candidate geminiResult =
     and_then (read geminiResult ''candidates'') (\<lambda>cs. Inr (first_element cs))"

definition candidate_text :: "jsval \<Rightarrow> jsval" where
  "candidate_text candidate =
     property (first_element (property (property candidate ''content'') ''parts'')) ''text''"

definition read_result :: "jsval \<Rightarrow> string + (jsval \<times> web_source list)" where
  "read_result geminiResult =
     and_then (first_candidate geminiResult) (\<lambda>candidate.
     and_then (extract_sources (property candidate ''groundingMetadata'')) (\<lambda>sources.
       Inr (or_default (candidate_text candidate) ''No response text found.'', sources)))"

text \<open>The \<^verbatim>\<open>catch\<close> block of lines 126-133: log the error, answer 500.\<close>

definition catch_pages :: "fetch_request list \<Rightarrow> log_entry list \<Rightarrow> string \<Rightarrow> fetch_request run" where
  "catch_pages calls logged msg =
     \<lparr>response = \<lparr>status = 500, body = ErrorPayload msg\<rparr>,
      upstream_calls = calls,
      console_error = logged @ [(''Error in Cloudflare function:'', ErrorMessage msg)]\<rparr>"

definition onRequestPost ::
  "(fetch_request \<Rightarrow> string + fetch_response) \<Rightarrow> cf_context \<Rightarrow> fetch_request run" where
  "onRequestPost fetch ctx =
     (case prepare ctx of
        Inl e \<Rightarrow> catch_pages [] [] e
      | Inr call \<Rightarrow>
          (case fetch call of
             Inl e \<Rightarrow> catch_pages [call] [] e
           | Inr geminiResponse \<Rightarrow>
               if \<not> ok geminiResponse then
                 (case json geminiResponse of
                    Inl e \<Rightarrow> catch_pages [call] [] e
                  | Inr errorBody \<Rightarrow>
                      catch_pages [call] [(''Gemini API Error:'', JsonValue errorBody)]
                        (upstream_error errorBody))
               else
                 (case json geminiResponse of
                    Inl e \<Rightarrow> catch_pages [call] [] e
                  | Inr geminiResult \<Rightarrow>
                      (case read_result geminiResult of
                         Inl e \<Rightarrow> catch_pages [call] [] e
                       | Inr (text_found, sources) \<Rightarrow>
                           \<lparr>response = \<lparr>status = 200, body = Payload text_found sources\<rparr>,
                            upstream_calls = [call],
                            console_error = []\<rparr>))))"

section \<open>The SDK functions: \<^verbatim>\<open>handler\<close> and \<^verbatim>\<open>onRequest\<close>\<close>

subsection \<open>The system prompt\<close>

text \<open>The \<^verbatim>\<open>jobs\<close> text of \<^verbatim>\<open>getSystemPrompt\<close>, the same in both files, up to the interpolated filter string.\<close>

definition jobs_instructions :: string where
  "jobs_instructions =
     ''You are an expert AI job assistant. Your user has provided their resume.\<newline>'' @
     ''1.  First, you **MUST** use the Google Search tool to find around 20 relevant job postings based on the user's resume.\<newline>'' @
     ''2.  You **MUST** format the job title as a markdown link pointing **directly to the original job posting URL (e.g., Greenhouse, Lever, or the company's career page)**, NOT a link to a Google search.\<newline>'' @
     ''3.  **DO NOT** return links to job boards like LinkedIn, Indeed, or ZipRecruiter. Only return direct, original application links.\<newline>'' @
     ''4.  After the jobs, provide a new section titled \"## Networking Contacts\" and find 3-5 relevant networking contacts (like recruiters, hiring managers, or team leads) at those companies.\<newline>'' @
     ''5.  Format the output clearly using Markdown (headers, bold text, and bullet points).\<newline>''"

text \<open>The \<^verbatim>\<open>critique\<close> text of \<^verbatim>\<open>API/gtAnalysis.js\<close>.\<close>

definition critique_instructions :: string where
  "critique_instructions =
     ''You are an expert resume critique assistant. Your user has provided their resume.\<newline>'' @
     ''1.  Provide a concise, professional, and constructive critique of the resume.\<newline>'' @
     ''2.  Give actionable advice on how to improve it, focusing on clarity, impact, and keywords.\<newline>'' @
     ''3.  Use bullet points to make the advice easy to read.\<newline>'' @
     ''4.  Do not use Google Search for this task.''"

text \<open>The \<^verbatim>\<open>critique\<close> text of the Worker file, which words its second item differently.\<close>

definition critique_instructions_cf :: string where
  "critique_instructions_cf =
     ''You are an expert resume critique assistant. Your user has provided their resume.\<newline>'' @
     ''1.  Provide a concise, professional, and constructive critique of the resume.\<newline>'' @
     ''2.  Give actionable advice on how to improve it,.\<newline>'' @
     ''3.  Use bullet points to make the advice easy to read.\<newline>'' @
     ''4.  Do not use Google Search for this task.''"

text \<open>The \<^verbatim>\<open>contacts\<close> text, the same in both files, up to the interpolated filter string.\<close>

definition contacts_instructions :: string where
  "contacts_instructions =
     ''You are an expert AI networking assistant. Your user has provided their resume.\<newline>'' @
     ''1.  You **MUST** use the Google Search tool.\<newline>'' @
     ''2.  Find 5-10 relevant networking contacts (recruiters, hiring managers, team leads) at companies that would likely hire someone with this resume.\<newline>'' @
     ''3.  Provide their name, title, company, and if possible, a link to their public profile (like LinkedIn or a company bio).\<newline>'' @
     ''4.  Format the output clearly using Markdown.\<newline>''"

text \<open>The text of the \<^verbatim>\<open>default\<close> branch.\<close>

definition default_instructions :: string where
  "default_instructions =
     ''You are a helpful assistant. Please analyze the provided text.''"

text \<open>
  The filter string of \<^verbatim>\<open>getSystemPrompt\<close>, the same lines in both files:
  \<^verbatim>\<open>
  let filterString = "";
  if (location) { filterString += ` (Location: ${location})`; }
  if (datePosted && datePosted !== "any") {
      filterString += ` (Posted: ${datePosted.replace("_", " ")})`;
  }
  if (filterString) {
      filterString = `\n\n**CRITICAL: You MUST adhere to these filters: ${filterString}**`;
  }
  \<close>
  Only a string has \<^verbatim>\<open>replace\<close>: for any other truthy \<^verbatim>\<open>datePosted\<close> the call throws.
\<close>

definition location_filter :: "jsval \<Rightarrow> string + string" where
  "location_filter loc =
     (if truthy loc
      then and_then (to_string loc) (\<lambda>s. Inr ('' (Location: '' @ s @ '')''))
      else Inr [])"

definition replace_underscore :: "jsval \<Rightarrow> string + string" where
  "replace_underscore posted =
     (case posted of
        Str s \<Rightarrow> Inr (replace_first CHR ''_'' CHR '' '' s)
      | other \<Rightarrow> Inl ''datePosted.replace is not a function'')"

definition posted_filter :: "jsval \<Rightarrow> string + string" where
  "posted_filter posted =
     (if truthy posted \<and> posted \<noteq> Str ''any''
      then and_then (replace_underscore posted) (\<lambda>s. Inr ('' (Posted: '' @ s @ '')''))
      else Inr [])"

definition filterString :: "jsval \<Rightarrow> jsval \<Rightarrow> string + string" where
  "filterString loc posted =
     and_then (location_filter loc) (\<lambda>l.
     and_then (posted_filter posted) (\<lambda>p.
       Inr (if l @ p \<noteq> []
            then ''\<newline>\<newline>**CRITICAL: You MUST adhere to these filters: '' @ (l @ p) @ ''**''
            else [])))"

text \<open>
  \<^verbatim>\<open>getSystemPrompt(type, location, datePosted)\<close> of \<^verbatim>\<open>API/gtAnalysis.js\<close>. The filter
  string is built before the \<^verbatim>\<open>switch\<close>, for every type. The \<^verbatim>\<open>default\<close> branch
  returns a prompt; it throws nothing.
\<close>

definition getSystemPrompt :: "jsval \<Rightarrow> jsval \<Rightarrow> jsval \<Rightarrow> string + string" where
  "getSystemPrompt ty loc posted =
     and_then (filterString loc posted) (\<lambda>fs. Inr
       (if ty = Str ''jobs'' then jobs_instructions @ fs
        else if ty = Str ''critique'' then critique_instructions
        else if ty = Str ''contacts'' then contacts_instructions @ fs
        else default_instructions))"

text \<open>The same function in the Worker file; only the critique text differs.\<close>

definition getSystemPrompt_cf :: "jsval \<Rightarrow> jsval \<Rightarrow> jsval \<Rightarrow> string + string" where
  "getSystemPrompt_cf ty loc posted =
     and_then (filterString loc posted) (\<lambda>fs. Inr
       (if ty = Str ''jobs'' then jobs_instructions @ fs
        else if ty = Str ''critique'' then critique_instructions_cf
        else if ty = Str ''contacts'' then contacts_instructions @ fs
        else default_instructions))"

subsection \<open>The outbound call\<close>

record generation_config =
  temperature :: rat
  topK :: nat
  topP :: rat
  maxOutputTokens :: nat

datatype harm_category =
  HARM_CATEGORY_HARASSMENT
| HARM_CATEGORY_HATE_SPEECH
| HARM_CATEGORY_SEXUALLY_EXPLICIT
| HARM_CATEGORY_DANGEROUS_CONTENT

datatype harm_block_threshold = BLOCK_MEDIUM_AND_ABOVE

text \<open>
  One call of \<^verbatim>\<open>model.generateContent\<close>, with what the client and the model were
  built from: the key, the model name and the system instruction. \<open>gen_tools\<close> is
  \<open>None\<close> where the source passes \<^verbatim>\<open>undefined\<close>.
\<close>

record sdk_call =
  apiKey :: jsval
  model :: string
  model_systemInstruction :: string
  gen_contents :: "(string \<times> jsval list) list"
  generationConfig :: generation_config
  safetySettings :: "(harm_category \<times> harm_block_threshold) list"
  gen_tools :: "tool list option"

definition MODEL_NAME :: string where
  "MODEL_NAME = ''gemini-2.5-flash-preview-09-2025''"

definition sdk_request :: "jsval \<Rightarrow> string \<Rightarrow> request_data \<Rightarrow> sdk_call" where
  "sdk_request key systemPrompt d =
     \<lparr>apiKey = key,
      model = MODEL_NAME,
      model_systemInstruction = systemPrompt,
      gen_contents = [(''user'', [resumeText d])],
      generationConfig = \<lparr>temperature = 7 / 10, topK = 64, topP = 95 / 100, maxOutputTokens = 8192\<rparr>,
      safetySettings =
        [(HARM_CATEGORY_HARASSMENT, BLOCK_MEDIUM_AND_ABOVE),
         (HARM_CATEGORY_HATE_SPEECH, BLOCK_MEDIUM_AND_ABOVE),
         (HARM_CATEGORY_SEXUALLY_EXPLICIT, BLOCK_MEDIUM_AND_ABOVE),
         (HARM_CATEGORY_DANGEROUS_CONTENT, BLOCK_MEDIUM_AND_ABOVE)],
      gen_tools = (if type d = Str ''jobs'' \<or> type d = Str ''contacts'' then Some [google_search] else None)\<rparr>"

subsection \<open>Reading the result\<close>

text \<open>
  Step 5 reads \<^verbatim>\<open>result.response.candidates[0].content.parts[0].text\<close> without optional
  chaining and without a default: each read throws a TypeError where the value read from
  is \<^verbatim>\<open>undefined\<close> or \<^verbatim>\<open>null\<close>. A first part without \<^verbatim>\<open>text\<close> throws nothing: the
  text is \<^verbatim>\<open>undefined\<close>. Then the sources are taken from
  \<^verbatim>\<open>result.response.candidates[0].groundingMetadata\<close>.
\<close>

definition first_part_text :: "jsval \<Rightarrow> string + (jsval \<times> jsval)" where
  "first_part_text result_response =
     and_then (read result_response ''candidates'') (\<lambda>cs.
     and_then (read_first cs) (\<lambda>candidate.
     and_then (read candidate ''content'') (\<lambda>ct.
     and_then (read ct ''parts'') (\<lambda>ps.
     and_then (read_first ps) (\<lambda>p.
     and_then (read p ''text'') (\<lambda>text_found.
       Inr (text_found, candidate)))))))"

definition read_response :: "jsval \<Rightarrow> string + (jsval \<times> web_source list)" where
  "read_response result_response =
     and_then (first_part_text result_response) (\<lambda>(text_found, candidate).
     and_then (extract_sources (property candidate ''groundingMetadata'')) (\<lambda>sources.
       Inr (text_found, sources)))"

text \<open>Steps 4 and 5 and the \<^verbatim>\<open>catch\<close> block, the same in both files but for the log's label.\<close>

definition catch_sdk :: "string \<Rightarrow> sdk_call list \<Rightarrow> string \<Rightarrow> sdk_call run" where
  "catch_sdk label calls msg =
     \<lparr>response = \<lparr>status = 500, body = ErrorPayload (''Error generating content: '' @ msg)\<rparr>,
      upstream_calls = calls,
      console_error = [(label, ErrorMessage msg)]\<rparr>"

definition generate ::
  "string \<Rightarrow> (sdk_call \<Rightarrow> string + jsval) \<Rightarrow> sdk_call \<Rightarrow> sdk_call run" where
  "generate label generateContent call =
     (case generateContent call of
        Inl e \<Rightarrow> catch_sdk label [call] e
      | Inr result_response \<Rightarrow>
          (case read_response result_response of
             Inl e \<Rightarrow> catch_sdk label [call] e
           | Inr (text_found, sources) \<Rightarrow>
               \<lparr>response = \<lparr>status = 200, body = Payload text_found sources\<rparr>,
                upstream_calls = [call],
                console_error = []\<rparr>))"

text \<open>
  The body of the \<^verbatim>\<open>try\<close> block after the checks of the two required fields:
  \<^verbatim>\<open>getSystemPrompt\<close> is called while the model is built, before the call, and what
  it throws is caught.
\<close>

definition analyse ::
  "string \<Rightarrow> (sdk_call \<Rightarrow> string + jsval) \<Rightarrow> jsval \<Rightarrow> string + string \<Rightarrow> request_data \<Rightarrow>
   sdk_call run" where
  "analyse label generateContent key systemPrompt d =
     (case systemPrompt of
        Inl e \<Rightarrow> catch_sdk label [] e
      | Inr p \<Rightarrow> generate label generateContent (sdk_request key p d))"

text \<open>An early \<^verbatim>\<open>return\<close> with a status and an error body: no call, no log.\<close>

definition reject :: "nat \<Rightarrow> string \<Rightarrow> sdk_call run" where
  "reject code msg =
     \<lparr>response = \<lparr>status = code, body = ErrorPayload msg\<rparr>,
      upstream_calls = [],
      console_error = []\<rparr>"

subsection \<open>The Vercel handler\<close>

text \<open>
  \<open>API_KEY\<close> is the module's constant \<^verbatim>\<open>process.env.GEMINI_API_KEY\<close>. The checks
  of the key, the method and the two required fields come before the \<^verbatim>\<open>try\<close>, and
  so does the destructuring of \<^verbatim>\<open>request.body\<close> at line 27: what it throws is not
  caught. \<open>Inl\<close> is that outcome: the handler's promise is rejected, and the handler
  has sent no response and made no call.
\<close>

definition handler ::
  "jsval \<Rightarrow> (sdk_call \<Rightarrow> string + jsval) \<Rightarrow> vercel_request \<Rightarrow> string + sdk_call run" where
  "handler API_KEY generateContent request =
     (if \<not> truthy API_KEY then
        Inr (reject 500
          ''API key is missing. Please add GEMINI_API_KEY to your Vercel Environment Variables.'')
      else if req_method request \<noteq> ''POST'' then
        Inr (reject 405 ''Method Not Allowed (must be POST)'')
      else
        and_then (destructure ''request.body'' (req_body request)) (\<lambda>d. Inr
          (if \<not> truthy (resumeText d) then reject 400 ''Resume text is required.''
           else if \<not> truthy (type d) then reject 400 ''Analysis type is required.''
           else
             analyse ''Error in Vercel function:'' generateContent API_KEY
               (getSystemPrompt (type d) (location d) (datePosted d)) d)))"

subsection \<open>The Worker handler\<close>

text \<open>
  The key and the method are checked before the \<^verbatim>\<open>try\<close>; the body is parsed and
  destructured inside it, so a body that does not parse, or parses to \<^verbatim>\<open>null\<close>, ends
  in the \<^verbatim>\<open>catch\<close> block.
\<close>

definition onRequest ::
  "(sdk_call \<Rightarrow> string + jsval) \<Rightarrow> cf_context \<Rightarrow> sdk_call run" where
  "onRequest generateContent ctx =
     (if \<not> truthy (env_GEMINI_API_KEY ctx) then
        reject 500 ''API key is missing. Please add GEMINI_API_KEY to your Cloudflare project.''
      else if request_method ctx \<noteq> ''POST'' then
        reject 405 ''Method Not Allowed (must be POST)''
      else
        (case and_then (request_json ctx) (destructure ''(intermediate value)'') of
           Inl e \<Rightarrow> catch_sdk ''Error in Cloudflare function:'' [] e
         | Inr d \<Rightarrow>
             if \<not> truthy (resumeText d) then reject 400 ''Resume text is required.''
             else if \<not> truthy (type d) then reject 400 ''Analysis type is required.''
             else
               analyse ''Error in Cloudflare function:'' generateContent (env_GEMINI_API_KEY ctx)
                 (getSystemPrompt_cf (type d) (location d) (datePosted d)) d))"

section \<open>Notions the properties are stated with\<close>

text \<open>
  The Vercel handler can end without a response. \<open>sent\<close> is the response a run sent,
  if any, and \<open>called\<close> the calls it made.
\<close>

definition sent :: "string + 'call run \<Rightarrow> http_response option" where
  "sent r = (case r of Inl e \<Rightarrow> None | Inr done \<Rightarrow> Some (response done))"

definition called :: "string + 'call run \<Rightarrow> 'call list" where
  "called r = (case r of Inl e \<Rightarrow> [] | Inr done \<Rightarrow> upstream_calls done)"

text \<open>The search tool is declared in an outbound call.\<close>

definition search_attached :: "fetch_request \<Rightarrow> bool" where
  "search_attached c = (google_search \<in> set (tools (fetch_body c)))"

definition sdk_search_attached :: "sdk_call \<Rightarrow> bool" where
  "sdk_search_attached c = (case gen_tools c of None \<Rightarrow> False | Some ts \<Rightarrow> google_search \<in> set ts)"

text \<open>The analysis types that search: \<^verbatim>\<open>jobs\<close> and \<^verbatim>\<open>contacts\<close>.\<close>

definition searching_type :: "jsval \<Rightarrow> bool" where
  "searching_type ty = (ty = Str ''jobs'' \<or> ty = Str ''contacts'')"

text \<open>The three analysis types.\<close>

definition known_type :: "jsval \<Rightarrow> bool" where
  "known_type ty = (ty = Str ''jobs'' \<or> ty = Str ''critique'' \<or> ty = Str ''contacts'')"

text \<open>A value that is a string, or absent: what the interface declares for a filter.\<close>

definition string_or_absent :: "jsval \<Rightarrow> bool" where
  "string_or_absent v = (case v of Undefined \<Rightarrow> True | Null \<Rightarrow> True | Str s \<Rightarrow> True | other \<Rightarrow> False)"

text \<open>
  The grounding attributions of a candidate's \<^verbatim>\<open>groundingMetadata\<close>, in the order the
  response lists them: the elements of its array \<^verbatim>\<open>groundingAttributions\<close>, if it has
  one.
\<close>

definition attributions :: "jsval \<Rightarrow> jsval list" where
  "attributions gm =
     (case property gm ''groundingAttributions'' of Arr atts \<Rightarrow> atts | other \<Rightarrow> [])"

text \<open>
  An attribution has both its \<open>uri\<close> and its \<open>title\<close>: the two properties of its
  \<^verbatim>\<open>web\<close> object are truthy, which for a string means that it is not empty.
\<close>

definition has_uri_and_title :: "jsval \<Rightarrow> bool" where
  "has_uri_and_title a =
     (truthy (property (property a ''web'') ''uri'') \<and>
      truthy (property (property a ''web'') ''title''))"

text \<open>
  The properties of the JSON body a handler sends. \<^verbatim>\<open>JSON.stringify\<close> leaves out a
  property whose value is \<^verbatim>\<open>undefined\<close>; every other value is written.
\<close>

definition body_keys :: "body \<Rightarrow> string list" where
  "body_keys b =
     (case b of
        Payload t srcs \<Rightarrow> (if t = Undefined then [] else [''text'']) @ [''sources'']
      | ErrorPayload msg \<Rightarrow> [''error''])"

text \<open>
  The filter clause of \<^verbatim>\<open>getSystemPrompt\<close> is recognised by its opening words.
  Filters are supplied when the location is truthy, or the posting date is truthy and
  not \<^verbatim>\<open>any\<close>.
\<close>

definition filter_marker :: string where
  "filter_marker = ''**CRITICAL: You MUST adhere to these filters: ''"

definition has_filter_clause :: "string \<Rightarrow> bool" where
  "has_filter_clause prompt = sublist filter_marker prompt"

definition filters_supplied :: "jsval \<Rightarrow> jsval \<Rightarrow> bool" where
  "filters_supplied loc posted = (truthy loc \<or> (truthy posted \<and> posted \<noteq> Str ''any''))"

section \<open>Example inputs\<close>

text \<open>The request of the spec's end-to-end scenario, and the contexts that carry a body.\<close>

definition jane :: string where
  "jane = ''Jane Doe, Software Engineer...''"

definition analysis_request :: "string \<Rightarrow> jsval" where
  "analysis_request ty = Obj [(''resumeText'', Str jane), (''type'', Str ty)]"

definition cf_post :: "jsval \<Rightarrow> jsval \<Rightarrow> cf_context" where
  "cf_post key b = \<lparr>request_method = ''POST'', request_json = Inr b, env_GEMINI_API_KEY = key\<rparr>"

definition vercel_post :: "jsval \<Rightarrow> vercel_request" where
  "vercel_post b = \<lparr>req_method = ''POST'', req_body = b\<rparr>"

text \<open>
  A provider response with one candidate of one part, its grounding metadata given;
  a grounding attribution with a \<^verbatim>\<open>web\<close> object; and stub collaborators.
\<close>

definition answer :: "jsval \<Rightarrow> jsval \<Rightarrow> jsval" where
  "answer first_part gm =
     Obj [(''candidates'',
           Arr [Obj [(''content'', Obj [(''parts'', Arr [first_part])]),
                     (''groundingMetadata'', gm)]])]"

definition cited :: "string \<Rightarrow> string \<Rightarrow> jsval" where
  "cited u t = Obj [(''web'', Obj [(''uri'', Str u), (''title'', Str t)])]"

definition fetch_returns :: "jsval \<Rightarrow> fetch_request \<Rightarrow> string + fetch_response" where
  "fetch_returns r call = Inr \<lparr>ok = True, json = Inr r\<rparr>"

definition fetch_fails :: "string \<Rightarrow> fetch_request \<Rightarrow> string + fetch_response" where
  "fetch_fails msg call = Inl msg"

definition sdk_returns :: "jsval \<Rightarrow> sdk_call \<Rightarrow> string + jsval" where
  "sdk_returns r call = Inr r"

definition sdk_fails :: "string \<Rightarrow> sdk_call \<Rightarrow> string + jsval" where
  "sdk_fails msg call = Inl msg"

section \<open>Sequencing\<close>

lemma and_then_Inl: "and_then (Inl e) f = Inl e"
  by (simp add: and_then_def)

lemma and_then_Inr: "and_then (Inr x) f = f x"
  by (simp add: and_then_def)

lemma and_then_eq_Inr: "(and_then r f = Inr y) = (\<exists>x. r = Inr x \<and> f x = Inr y)"
  by (cases r) (simp_all add: and_then_def)

lemma and_then_eq_Inl: "(and_then r f = Inl e) = (r = Inl e \<or> (\<exists>x. r = Inr x \<and> f x = Inl e))"
  by (cases r) (simp_all add: and_then_def)

lemma destructure_Inr: "(destructure expr v = Inr d) = (\<not> nullish v \<and> d = body_fields v)"
  by (auto simp: destructure_def)

lemma property_nullish: "nullish v \<Longrightarrow> property v name = Undefined"
  by (auto simp: nullish_def)

lemma read_Inr: "(read v name = Inr x) = (\<not> nullish v \<and> x = property v name)"
  by (auto simp: read_def)

lemma read_first_Inr: "(read_first v = Inr x) = (\<not> nullish v \<and> x = first_element v)"
  by (auto simp: read_first_def)

lemma to_string_absent: "string_or_absent v \<Longrightarrow> \<exists>s. to_string v = Inr s"
  by (cases v) (simp_all add: string_or_absent_def)

section \<open>The calls a handler makes\<close>

lemma prepare_Inr:
  "prepare ctx = Inr c \<Longrightarrow>
   \<exists>b api_url p ts resume. request_json ctx = Inr b \<and> \<not> nullish b \<and>
     truthy (env_GEMINI_API_KEY ctx) \<and> API_URL (env_GEMINI_API_KEY ctx) = Inr api_url \<and>
     build_prompt (body_fields b) = Inr (p, ts) \<and>
     to_string (resumeText (body_fields b)) = Inr resume \<and>
     c = fetch_call api_url resume p ts"
  by (auto simp: prepare_def and_then_eq_Inr destructure_Inr split: if_splits)

lemma pages_calls:
  "c \<in> set (upstream_calls (onRequestPost fetch ctx)) \<Longrightarrow> prepare ctx = Inr c"
  by (auto simp: onRequestPost_def catch_pages_def split: sum.splits if_splits prod.splits)

lemma build_prompt_tools:
  "build_prompt d = Inr (p, ts) \<Longrightarrow> (google_search \<in> set ts) = searching_type (type d)"
  by (auto simp: build_prompt_def searching_type_def and_then_eq_Inr split: if_splits)

lemma generate_calls_eq: "upstream_calls (generate l g call) = [call]"
  by (simp add: generate_def catch_sdk_def split: sum.splits prod.splits)

lemma analyse_calls:
  "c \<in> set (upstream_calls (analyse l g key sp d)) \<Longrightarrow> \<exists>p. sp = Inr p \<and> c = sdk_request key p d"
  by (auto simp: analyse_def catch_sdk_def generate_calls_eq split: sum.splits)

lemma handler_accepts:
  assumes "truthy key" and "req_method rq = ''POST''" and "\<not> nullish (req_body rq)"
    and "truthy (resumeText (body_fields (req_body rq)))" and "truthy (type (body_fields (req_body rq)))"
  shows "handler key g rq =
           Inr (analyse ''Error in Vercel function:'' g key
                  (getSystemPrompt (type (body_fields (req_body rq))) (location (body_fields (req_body rq)))
                     (datePosted (body_fields (req_body rq))))
                  (body_fields (req_body rq)))"
  using assms by (simp add: handler_def destructure_def and_then_Inr)

lemma handler_no_body:
  assumes "truthy key" and "req_method rq = ''POST''" and "nullish (req_body rq)"
  shows "\<exists>e. handler key g rq = Inl e"
  using assms by (simp add: handler_def destructure_def and_then_Inl)

lemma handler_rejects:
  assumes "\<not> (truthy key \<and> req_method rq = ''POST'' \<and>
      truthy (resumeText (body_fields (req_body rq))) \<and> truthy (type (body_fields (req_body rq))))"
  shows "called (handler key g rq) = []"
  using assms
  by (cases "nullish (req_body rq)")
     (auto simp: called_def handler_def destructure_def and_then_Inr and_then_Inl reject_def)

lemma handler_calls:
  assumes "c \<in> set (called (handler key g rq))"
  shows "\<exists>p. c = sdk_request key p (body_fields (req_body rq))"
proof (cases "nullish (req_body rq)")
  case True
  then have "called (handler key g rq) = []"
    by (auto simp: called_def handler_def destructure_def and_then_Inl reject_def)
  with assms show ?thesis by simp
next
  case False
  show ?thesis
  proof (cases "truthy key \<and> req_method rq = ''POST'' \<and>
      truthy (resumeText (body_fields (req_body rq))) \<and> truthy (type (body_fields (req_body rq)))")
    case True
    with False assms show ?thesis
      by (auto simp: handler_accepts called_def dest!: analyse_calls)
  next
    case False
    then have "called (handler key g rq) = []" by (rule handler_rejects)
    with assms show ?thesis by simp
  qed
qed

lemma onRequest_accepts:
  assumes "truthy (env_GEMINI_API_KEY ctx)" and "request_method ctx = ''POST''"
    and "request_json ctx = Inr b" and "\<not> nullish b"
    and "truthy (resumeText (body_fields b))" and "truthy (type (body_fields b))"
  shows "onRequest g ctx =
           analyse ''Error in Cloudflare function:'' g (env_GEMINI_API_KEY ctx)
             (getSystemPrompt_cf (type (body_fields b)) (location (body_fields b))
                (datePosted (body_fields b)))
             (body_fields b)"
  using assms by (simp add: onRequest_def destructure_def and_then_Inr)

lemma onRequest_calls:
  assumes "c \<in> set (upstream_calls (onRequest g ctx))"
  shows "\<exists>b p. request_json ctx = Inr b \<and> \<not> nullish b \<and>
     c = sdk_request (env_GEMINI_API_KEY ctx) p (body_fields b)"
proof (cases "request_json ctx")
  case (Inl e)
  with assms show ?thesis
    by (auto simp: onRequest_def reject_def catch_sdk_def and_then_Inl split: if_splits)
next
  case (Inr b)
  show ?thesis
  proof (cases "nullish b")
    case True
    with Inr assms show ?thesis
      by (auto simp: onRequest_def reject_def catch_sdk_def and_then_Inr destructure_def split: if_splits)
  next
    case False
    with Inr assms show ?thesis
      by (auto simp: onRequest_def reject_def and_then_Inr destructure_def
          dest!: analyse_calls split: if_splits)
  qed
qed

lemma sdk_request_tools: "sdk_search_attached (sdk_request key p d) = searching_type (type d)"
  by (simp add: sdk_search_attached_def sdk_request_def searching_type_def)

lemma type_body_fields: "type (body_fields b) = property b ''type''"
  by (simp add: body_fields_def)

lemma critique_prompt: "getSystemPrompt (Str ''critique'') Undefined Undefined = Inr critique_instructions"
  by (simp add: getSystemPrompt_def filterString_def location_filter_def posted_filter_def and_then_Inr)

lemma contacts_prompt_cf:
  "getSystemPrompt_cf (Str ''contacts'') Undefined Undefined = Inr contacts_instructions"
  by (simp add: getSystemPrompt_cf_def filterString_def location_filter_def posted_filter_def and_then_Inr)

lemma prepare_no_key:
  "\<not> truthy (env_GEMINI_API_KEY ctx) \<Longrightarrow>
   prepare ctx =
     Inl (case and_then (request_json ctx) (destructure ''requestData'') of
            Inl e \<Rightarrow> e
          | Inr d \<Rightarrow> ''API key is not configured.'')"
  by (cases "request_json ctx"; cases "and_then (request_json ctx) (destructure ''requestData'')")
     (auto simp: prepare_def and_then_def split: sum.splits)

section \<open>What a run returns\<close>

lemma pages_success:
  assumes "prepare ctx = Inr call" and "fetch call = Inr resp" and "ok resp" and "json resp = Inr r"
    and "first_candidate r = Inr c" and "extract_sources (property c ''groundingMetadata'') = Inr srcs"
  shows "onRequestPost fetch ctx =
           \<lparr>response = \<lparr>status = 200,
              body = Payload (or_default (candidate_text c) ''No response text found.'') srcs\<rparr>,
            upstream_calls = [call], console_error = []\<rparr>"
  using assms by (simp add: onRequestPost_def read_result_def and_then_Inr)

lemma pages_placeholder:
  assumes "prepare ctx = Inr call" and "fetch call = Inr resp" and "ok resp" and "json resp = Inr r"
    and "first_candidate r = Inr c" and "extract_sources (property c ''groundingMetadata'') = Inr srcs"
    and "\<not> truthy (candidate_text c)"
  shows "response (onRequestPost fetch ctx) =
           \<lparr>status = 200, body = Payload (Str ''No response text found.'') srcs\<rparr>"
  using assms by (simp add: pages_success or_default_def)

lemma generate_success:
  assumes "g call = Inr r" and "first_part_text r = Inr (t, c)"
    and "extract_sources (property c ''groundingMetadata'') = Inr srcs"
  shows "generate l g call =
           \<lparr>response = \<lparr>status = 200, body = Payload t srcs\<rparr>,
            upstream_calls = [call], console_error = []\<rparr>"
  using assms by (simp add: generate_def read_response_def and_then_Inr)

lemma or_default_defined: "or_default v d \<noteq> Undefined"
  by (cases v) (simp_all add: or_default_def)

lemma pages_body_keys:
  "(status (response (onRequestPost fetch ctx)) = 200 \<and>
      body_keys (body (response (onRequestPost fetch ctx))) = [''text'', ''sources'']) \<or>
   (status (response (onRequestPost fetch ctx)) = 500 \<and>
      body_keys (body (response (onRequestPost fetch ctx))) = [''error''])"
  by (auto simp: onRequestPost_def catch_pages_def body_keys_def read_result_def and_then_eq_Inr
      or_default_defined split: sum.splits prod.splits)

lemma generate_body_keys:
  "body_keys (body (response (generate l g call))) = [''text'', ''sources''] \<or>
   body_keys (body (response (generate l g call))) = [''sources''] \<or>
   body_keys (body (response (generate l g call))) = [''error'']"
  by (simp add: generate_def catch_sdk_def body_keys_def split: sum.splits prod.splits)

lemma analyse_calls_length: "length (upstream_calls (analyse l g key sp d)) \<le> Suc 0"
  by (simp add: analyse_def catch_sdk_def generate_calls_eq split: sum.splits)

lemma at_most_one_call:
  "length (upstream_calls (onRequestPost fetch ctx)) \<le> 1"
  "length (called (handler key g rq)) \<le> 1"
  "length (upstream_calls (onRequest g ctx)) \<le> 1"
proof -
  show "length (upstream_calls (onRequestPost fetch ctx)) \<le> 1"
    by (simp add: onRequestPost_def catch_pages_def split: sum.splits prod.splits)
  show "length (called (handler key g rq)) \<le> 1"
    by (cases "nullish (req_body rq)")
       (simp_all add: called_def handler_def destructure_def and_then_Inl and_then_Inr reject_def
          analyse_calls_length)
  show "length (upstream_calls (onRequest g ctx)) \<le> 1"
    by (cases "request_json ctx")
       (simp_all add: onRequest_def destructure_def and_then_def reject_def catch_sdk_def
          analyse_calls_length)
qed

lemma no_text_response:
  "first_part_text (answer (Obj []) (Obj [])) =
     Inr (Undefined, Obj [(''content'', Obj [(''parts'', Arr [Obj []])]), (''groundingMetadata'', Obj [])])"
  by (simp add: first_part_text_def answer_def read_def read_first_def nullish_def and_then_Inr)

lemma critique_fields:
  "body_fields (analysis_request ''critique'') =
     \<lparr>resumeText = Str jane, type = Str ''critique'', location = Undefined, datePosted = Undefined\<rparr>"
  by (simp add: body_fields_def analysis_request_def)

lemma critique_accepted:
  "\<not> nullish (analysis_request ''critique'')"
  "truthy (resumeText (body_fields (analysis_request ''critique'')))"
  "truthy (type (body_fields (analysis_request ''critique'')))"
proof -
  show "\<not> nullish (analysis_request ''critique'')"
    by (simp add: nullish_def analysis_request_def)
  show "truthy (resumeText (body_fields (analysis_request ''critique'')))"
    by (simp add: critique_fields jane_def)
  show "truthy (type (body_fields (analysis_request ''critique'')))"
    by (simp add: critique_fields)
qed

lemma critique_prompt_cf:
  "getSystemPrompt_cf (Str ''critique'') Undefined Undefined = Inr critique_instructions_cf"
  by (simp add: getSystemPrompt_cf_def filterString_def location_filter_def posted_filter_def and_then_Inr)

lemma critique_prepare:
  "prepare (cf_post (Str ''key'') (analysis_request ''critique'')) =
     Inr (fetch_call
       (''https://generativelanguage.googleapis.com/v1beta/models/gemini-2.5-flash-preview-09-2025:generateContent?key='' @ ''key'')
       jane critique_template [])"
  by (simp add: prepare_def cf_post_def destructure_def critique_accepted critique_fields
      API_URL_def build_prompt_def and_then_Inr)

lemma handler_critique:
  "handler (Str ''key'') g (vercel_post (analysis_request ''critique'')) =
     Inr (generate ''Error in Vercel function:'' g
       (sdk_request (Str ''key'') critique_instructions (body_fields (analysis_request ''critique''))))"
  by (simp add: handler_accepts vercel_post_def critique_accepted)
     (simp add: critique_fields critique_prompt analyse_def)

lemma onRequest_critique:
  "onRequest g (cf_post (Str ''key'') (analysis_request ''critique'')) =
     generate ''Error in Cloudflare function:'' g
       (sdk_request (Str ''key'') critique_instructions_cf (body_fields (analysis_request ''critique'')))"
  by (simp add: onRequest_accepts[where b = "analysis_request ''critique''"] cf_post_def critique_accepted)
     (simp add: critique_fields critique_prompt_cf analyse_def)

section \<open>The paths through the handlers\<close>

lemma build_prompt_unknown:
  "\<not> known_type (type d) \<Longrightarrow> build_prompt d = Inl ''Invalid analysis type.''"
  by (simp add: build_prompt_def known_type_def)

lemma getSystemPrompt_unknown:
  "\<not> known_type ty \<Longrightarrow>
   getSystemPrompt ty loc posted = and_then (filterString loc posted) (\<lambda>fs. Inr default_instructions)"
  "\<not> known_type ty \<Longrightarrow>
   getSystemPrompt_cf ty loc posted = and_then (filterString loc posted) (\<lambda>fs. Inr default_instructions)"
  by (simp_all add: getSystemPrompt_def getSystemPrompt_cf_def known_type_def)

lemma filterString_total:
  assumes "string_or_absent loc" and "string_or_absent posted"
  shows "\<exists>fs. filterString loc posted = Inr fs"
proof -
  from assms(1) have "\<exists>l. location_filter loc = Inr l"
    by (cases loc) (auto simp: string_or_absent_def location_filter_def and_then_Inr)
  then obtain l where l: "location_filter loc = Inr l" by auto
  from assms(2) have "\<exists>p. posted_filter posted = Inr p"
    by (cases posted)
       (auto simp: string_or_absent_def posted_filter_def replace_underscore_def and_then_Inr)
  then obtain p where p: "posted_filter posted = Inr p" by auto
  show ?thesis
    by (simp add: filterString_def l p and_then_Inr)
qed

lemma prepare_known:
  assumes "prepare ctx = Inr c" and "request_json ctx = Inr b"
  shows "known_type (property b ''type'')"
proof (rule ccontr)
  assume n: "\<not> known_type (property b ''type'')"
  from prepare_Inr[OF assms(1)] assms(2) obtain p ts where "build_prompt (body_fields b) = Inr (p, ts)"
    by auto
  with build_prompt_unknown[of "body_fields b"] n show False
    by (simp add: type_body_fields)
qed

lemma pages_unknown:
  assumes "request_json ctx = Inr b" and "\<not> known_type (property b ''type'')"
  shows "upstream_calls (onRequestPost fetch ctx) = []"
    and "status (response (onRequestPost fetch ctx)) = 500"
proof -
  from assms prepare_known obtain e where "prepare ctx = Inl e"
    by (cases "prepare ctx") auto
  then show "upstream_calls (onRequestPost fetch ctx) = []"
    and "status (response (onRequestPost fetch ctx)) = 500"
    by (simp_all add: onRequestPost_def catch_pages_def)
qed

lemma pages_invalid_type:
  assumes "request_json ctx = Inr b" and "\<not> known_type (property b ''type'')"
    and "\<not> nullish b" and "env_GEMINI_API_KEY ctx = Str k" and "k \<noteq> []"
  shows "body (response (onRequestPost fetch ctx)) = ErrorPayload ''Invalid analysis type.''"
proof -
  from assms have "prepare ctx = Inl ''Invalid analysis type.''"
    by (simp add: prepare_def and_then_Inr and_then_Inl destructure_def API_URL_def
        build_prompt_unknown type_body_fields)
  then show ?thesis
    by (simp add: onRequestPost_def catch_pages_def)
qed

lemma analyse_unknown:
  assumes "\<not> known_type (type d)"
  shows "filterString (location d) (datePosted d) = Inl e \<Longrightarrow>
           analyse l g key (getSystemPrompt (type d) (location d) (datePosted d)) d = catch_sdk l [] e"
    and "filterString (location d) (datePosted d) = Inl e \<Longrightarrow>
           analyse l g key (getSystemPrompt_cf (type d) (location d) (datePosted d)) d = catch_sdk l [] e"
    and "filterString (location d) (datePosted d) = Inr fs \<Longrightarrow>
           analyse l g key (getSystemPrompt (type d) (location d) (datePosted d)) d =
             generate l g (sdk_request key default_instructions d)"
    and "filterString (location d) (datePosted d) = Inr fs \<Longrightarrow>
           analyse l g key (getSystemPrompt_cf (type d) (location d) (datePosted d)) d =
             generate l g (sdk_request key default_instructions d)"
  using assms by (simp_all add: getSystemPrompt_unknown analyse_def and_then_Inl and_then_Inr)

lemma fields_simps:
  "resumeText (body_fields b) = property b ''resumeText''"
  "location (body_fields b) = property b ''location''"
  "datePosted (body_fields b) = property b ''datePosted''"
  by (simp_all add: body_fields_def)

section \<open>The checks of the two required fields\<close>




lemma pages_forwards_missing_resume:
  "map (contents \<circ> fetch_body)
     (upstream_calls (onRequestPost (fetch_fails ''fetch failed'')
        (cf_post (Str ''key'') (Obj [(''type'', Str ''critique'')])))) =
   [[(''user'', [''Here is my resume:\<newline>\<newline>undefined''])]]"
  by (simp add: onRequestPost_def prepare_def cf_post_def destructure_def nullish_def body_fields_def
      API_URL_def build_prompt_def and_then_Inr fetch_fails_def catch_pages_def fetch_call_def)

section \<open>Reading the sources\<close>

lemma to_source_object:
  "\<not> nullish a \<Longrightarrow>
   to_source a = Inr \<lparr>uri = property (property a ''web'') ''uri'',
                      title = property (property a ''web'') ''title''\<rparr>"
  by (simp add: to_source_def read_def and_then_Inr)

lemma to_source_null: "nullish a \<Longrightarrow> to_source a = Inl (cannot_read a ''web'')"
  by (simp add: to_source_def read_def and_then_Inl)

lemma map_sources_objects:
  "(\<forall>a\<in>set atts. \<not> nullish a) \<Longrightarrow>
   map_sources atts =
     Inr (map (\<lambda>a. \<lparr>uri = property (property a ''web'') ''uri'',
                      title = property (property a ''web'') ''title''\<rparr>) atts)"
  by (induction atts) (simp_all add: to_source_object and_then_Inr)

lemma map_sources_Inr:
  "map_sources atts = Inr ss \<Longrightarrow> \<forall>a\<in>set atts. \<not> nullish a"
proof (induction atts arbitrary: ss)
  case Nil
  then show ?case by simp
next
  case (Cons a atts)
  then show ?case
    by (cases "nullish a") (auto simp: to_source_null to_source_object and_then_Inl and_then_eq_Inr)
qed

lemma map_sources_null:
  "\<exists>a\<in>set atts. nullish a \<Longrightarrow> \<exists>e. map_sources atts = Inl e"
  using map_sources_Inr by (cases "map_sources atts") auto

lemma valid_own_pair:
  "valid_source \<lparr>uri = property (property a ''web'') ''uri'',
                 title = property (property a ''web'') ''title''\<rparr> = has_uri_and_title a"
  by (simp add: valid_source_def has_uri_and_title_def)

lemma extract_sources_array:
  assumes "truthy gm" and "property gm ''groundingAttributions'' = Arr atts"
    and "\<forall>a\<in>set atts. \<not> nullish a"
  shows "extract_sources gm =
     Inr (map (\<lambda>a. \<lparr>uri = property (property a ''web'') ''uri'',
                      title = property (property a ''web'') ''title''\<rparr>)
            (filter has_uri_and_title atts))"
  using assms
  by (simp add: extract_sources_def map_sources_objects and_then_Inr filter_map comp_def valid_own_pair)

lemma extract_sources_none:
  "\<not> (truthy gm \<and> truthy (property gm ''groundingAttributions'')) \<Longrightarrow> extract_sources gm = Inr []"
  unfolding extract_sources_def by (simp only: if_False)

lemma property_falsy: "\<not> truthy gm \<Longrightarrow> property gm name = Undefined"
  by (cases gm) simp_all

lemma extract_sources_Inr:
  assumes "extract_sources gm = Inr srcs"
  shows "srcs = map (\<lambda>a. \<lparr>uri = property (property a ''web'') ''uri'',
                          title = property (property a ''web'') ''title''\<rparr>)
                 (filter has_uri_and_title (attributions gm))"
proof (cases "truthy gm \<and> truthy (property gm ''groundingAttributions'')")
  case False
  then have "attributions gm = []"
    by (cases "truthy gm"; cases "property gm ''groundingAttributions''")
       (auto simp: attributions_def property_falsy)
  with False assms show ?thesis
    by (simp add: extract_sources_none)
next
  case True
  with assms obtain atts where a: "property gm ''groundingAttributions'' = Arr atts"
    by (cases "property gm ''groundingAttributions''") (auto simp: extract_sources_def)
  with True assms obtain ss where "map_sources atts = Inr ss"
    by (auto simp: extract_sources_def and_then_eq_Inr)
  then have "\<forall>a\<in>set atts. \<not> nullish a" by (rule map_sources_Inr)
  with True a assms show ?thesis
    by (simp add: extract_sources_array attributions_def)
qed

lemma first_candidate_Inr:
  "first_candidate r = Inr c \<Longrightarrow> c = first_element (property r ''candidates'')"
  by (auto simp: first_candidate_def and_then_eq_Inr read_Inr)

lemma first_part_candidate:
  "first_part_text r = Inr (t, c) \<Longrightarrow> c = first_element (property r ''candidates'')"
  by (auto simp: first_part_text_def and_then_eq_Inr read_Inr read_first_Inr)

lemma pages_payload:
  assumes "body (response (onRequestPost fetch ctx)) = Payload t srcs"
  shows "\<exists>call resp r c. prepare ctx = Inr call \<and> upstream_calls (onRequestPost fetch ctx) = [call] \<and>
           fetch call = Inr resp \<and> ok resp \<and> json resp = Inr r \<and>
           first_candidate r = Inr c \<and>
           extract_sources (property c ''groundingMetadata'') = Inr srcs"
  using assms
  by (auto simp: onRequestPost_def catch_pages_def read_result_def and_then_eq_Inr
      split: sum.splits if_splits prod.splits)

lemma generate_payload:
  assumes "body (response (generate l g call)) = Payload t srcs"
  shows "\<exists>r c. g call = Inr r \<and> first_part_text r = Inr (t, c) \<and>
           extract_sources (property c ''groundingMetadata'') = Inr srcs"
  using assms
  by (auto simp: generate_def catch_sdk_def read_response_def and_then_eq_Inr
      split: sum.splits prod.splits)

lemma analyse_payload:
  assumes "body (response (analyse l g key sp d)) = Payload t srcs"
  shows "\<exists>call r c. upstream_calls (analyse l g key sp d) = [call] \<and> g call = Inr r \<and>
           first_part_text r = Inr (t, c) \<and>
           extract_sources (property c ''groundingMetadata'') = Inr srcs"
  using assms generate_payload
  by (cases sp) (auto simp: analyse_def catch_sdk_def generate_calls_eq)

lemma handler_payload:
  assumes "map_option body (sent (handler key g rq)) = Some (Payload t srcs)"
  shows "\<exists>call r c. called (handler key g rq) = [call] \<and> g call = Inr r \<and>
           first_part_text r = Inr (t, c) \<and>
           extract_sources (property c ''groundingMetadata'') = Inr srcs"
proof (cases "nullish (req_body rq)")
  case True
  with assms show ?thesis
    by (auto simp: sent_def handler_def destructure_def and_then_Inl reject_def split: if_splits)
next
  case False
  show ?thesis
  proof (cases "truthy key \<and> req_method rq = ''POST'' \<and>
      truthy (resumeText (body_fields (req_body rq))) \<and> truthy (type (body_fields (req_body rq)))")
    case True
    with False assms show ?thesis
      using analyse_payload by (simp add: handler_accepts sent_def called_def)
  next
    case f: False
    with False assms show ?thesis
      by (auto simp: sent_def handler_def destructure_def and_then_Inr reject_def split: if_splits)
  qed
qed

lemma onRequest_payload:
  assumes "body (response (onRequest g ctx)) = Payload t srcs"
  shows "\<exists>call r c. upstream_calls (onRequest g ctx) = [call] \<and> g call = Inr r \<and>
           first_part_text r = Inr (t, c) \<and>
           extract_sources (property c ''groundingMetadata'') = Inr srcs"
proof (cases "and_then (request_json ctx) (destructure ''(intermediate value)'')")
  case (Inl e)
  with assms show ?thesis
    by (auto simp: onRequest_def reject_def catch_sdk_def split: if_splits)
next
  case (Inr d)
  with assms show ?thesis
    using analyse_payload by (auto simp: onRequest_def reject_def split: if_splits)
qed

section \<open>The handlers on a given answer of the provider\<close>

lemma pages_failure:
  assumes "prepare ctx = Inr call" and "fetch call = Inr resp" and "ok resp" and "json resp = Inr r"
    and "first_candidate r = Inr c" and "extract_sources (property c ''groundingMetadata'') = Inl e"
  shows "onRequestPost fetch ctx = catch_pages [call] [] e"
  using assms by (simp add: onRequestPost_def read_result_def and_then_Inr and_then_Inl)

lemma generate_failure:
  assumes "g call = Inr r" and "first_part_text r = Inr (t, c)"
    and "extract_sources (property c ''groundingMetadata'') = Inl e"
  shows "generate l g call = catch_sdk l [call] e"
  using assms by (simp add: generate_def read_response_def and_then_Inr and_then_Inl)

lemma answer_first_part:
  "first_part_text (answer (Obj [(''text'', t)]) gm) =
     Inr (t, Obj [(''content'', Obj [(''parts'', Arr [Obj [(''text'', t)]])]), (''groundingMetadata'', gm)])"
  by (simp add: first_part_text_def answer_def read_def read_first_def nullish_def and_then_Inr)

lemma answer_first_candidate:
  "first_candidate (answer p gm) =
     Inr (Obj [(''content'', Obj [(''parts'', Arr [p])]), (''groundingMetadata'', gm)])"
  by (simp add: first_candidate_def answer_def read_def nullish_def and_then_Inr)

lemma answer_grounding:
  "property (Obj [(''content'', ct), (''groundingMetadata'', gm)]) ''groundingMetadata'' = gm"
  by simp

lemma answer_candidate_text:
  "candidate_text (Obj [(''content'', Obj [(''parts'', Arr [Obj [(''text'', t)]])]), (''groundingMetadata'', gm)]) = t"
  by (simp add: candidate_text_def)

lemma sources_null_entry:
  assumes "truthy gm" and "property gm ''groundingAttributions'' = Arr atts"
    and "\<exists>a\<in>set atts. nullish a"
  shows "\<exists>e. extract_sources gm = Inl e"
proof -
  from map_sources_null[OF assms(3)] obtain e where "map_sources atts = Inl e" ..
  with assms(1,2) show ?thesis
    by (simp add: extract_sources_def and_then_Inl)
qed

lemma critique_answers:
  assumes "extract_sources gm = Inr srcs"
  shows "response (onRequestPost (fetch_returns (answer (Obj [(''text'', Str t)]) gm))
           (cf_post (Str ''key'') (analysis_request ''critique''))) =
         \<lparr>status = 200, body = Payload (or_default (Str t) ''No response text found.'') srcs\<rparr>"
    and "sent (handler (Str ''key'') (sdk_returns (answer (Obj [(''text'', Str t)]) gm))
           (vercel_post (analysis_request ''critique''))) =
         Some \<lparr>status = 200, body = Payload (Str t) srcs\<rparr>"
    and "response (onRequest (sdk_returns (answer (Obj [(''text'', Str t)]) gm))
           (cf_post (Str ''key'') (analysis_request ''critique''))) =
         \<lparr>status = 200, body = Payload (Str t) srcs\<rparr>"
proof -
  let ?r = "answer (Obj [(''text'', Str t)]) gm"
  let ?c = "Obj [(''content'', Obj [(''parts'', Arr [Obj [(''text'', Str t)]])]), (''groundingMetadata'', gm)]"
  have e: "extract_sources (property ?c ''groundingMetadata'') = Inr srcs"
    using assms by simp
  have "onRequestPost (fetch_returns ?r) (cf_post (Str ''key'') (analysis_request ''critique'')) =
      \<lparr>response = \<lparr>status = 200,
         body = Payload (or_default (candidate_text ?c) ''No response text found.'') srcs\<rparr>,
       upstream_calls = [fetch_call
         (''https://generativelanguage.googleapis.com/v1beta/models/gemini-2.5-flash-preview-09-2025:generateContent?key='' @ ''key'')
         jane critique_template []], console_error = []\<rparr>"
    by (rule pages_success[where resp = "\<lparr>ok = True, json = Inr ?r\<rparr>",
          OF critique_prepare _ _ _ answer_first_candidate e])
       (simp_all add: fetch_returns_def)
  then show "response (onRequestPost (fetch_returns ?r)
           (cf_post (Str ''key'') (analysis_request ''critique''))) =
         \<lparr>status = 200, body = Payload (or_default (Str t) ''No response text found.'') srcs\<rparr>"
    by (simp add: answer_candidate_text)
  have g: "generate l (sdk_returns ?r) call =
      \<lparr>response = \<lparr>status = 200, body = Payload (Str t) srcs\<rparr>,
       upstream_calls = [call], console_error = []\<rparr>" for l call
    by (rule generate_success[OF _ answer_first_part e]) (simp add: sdk_returns_def)
  show "sent (handler (Str ''key'') (sdk_returns ?r) (vercel_post (analysis_request ''critique''))) =
         Some \<lparr>status = 200, body = Payload (Str t) srcs\<rparr>"
    by (simp add: handler_critique g sent_def)
  show "response (onRequest (sdk_returns ?r) (cf_post (Str ''key'') (analysis_request ''critique''))) =
         \<lparr>status = 200, body = Payload (Str t) srcs\<rparr>"
    by (simp add: onRequest_critique g)
qed

lemma critique_fails:
  assumes "extract_sources gm = Inl e"
  shows "response (onRequestPost (fetch_returns (answer (Obj [(''text'', Str t)]) gm))
           (cf_post (Str ''key'') (analysis_request ''critique''))) =
         \<lparr>status = 500, body = ErrorPayload e\<rparr>"
    and "sent (handler (Str ''key'') (sdk_returns (answer (Obj [(''text'', Str t)]) gm))
           (vercel_post (analysis_request ''critique''))) =
         Some \<lparr>status = 500, body = ErrorPayload (''Error generating content: '' @ e)\<rparr>"
    and "response (onRequest (sdk_returns (answer (Obj [(''text'', Str t)]) gm))
           (cf_post (Str ''key'') (analysis_request ''critique''))) =
         \<lparr>status = 500, body = ErrorPayload (''Error generating content: '' @ e)\<rparr>"
proof -
  let ?r = "answer (Obj [(''text'', Str t)]) gm"
  let ?c = "Obj [(''content'', Obj [(''parts'', Arr [Obj [(''text'', Str t)]])]), (''groundingMetadata'', gm)]"
  have e: "extract_sources (property ?c ''groundingMetadata'') = Inl e"
    using assms by simp
  have "onRequestPost (fetch_returns ?r) (cf_post (Str ''key'') (analysis_request ''critique'')) =
      catch_pages [fetch_call
         (''https://generativelanguage.googleapis.com/v1beta/models/gemini-2.5-flash-preview-09-2025:generateContent?key='' @ ''key'')
         jane critique_template []] [] e"
    by (rule pages_failure[where resp = "\<lparr>ok = True, json = Inr ?r\<rparr>",
          OF critique_prepare _ _ _ answer_first_candidate e])
       (simp_all add: fetch_returns_def)
  then show "response (onRequestPost (fetch_returns ?r)
           (cf_post (Str ''key'') (analysis_request ''critique''))) =
         \<lparr>status = 500, body = ErrorPayload e\<rparr>"
    by (simp add: catch_pages_def)
  have g: "generate l (sdk_returns ?r) call = catch_sdk l [call] e" for l call
    by (rule generate_failure[OF _ answer_first_part e]) (simp add: sdk_returns_def)
  show "sent (handler (Str ''key'') (sdk_returns ?r) (vercel_post (analysis_request ''critique''))) =
         Some \<lparr>status = 500, body = ErrorPayload (''Error generating content: '' @ e)\<rparr>"
    by (simp add: handler_critique g sent_def catch_sdk_def)
  show "response (onRequest (sdk_returns ?r) (cf_post (Str ''key'') (analysis_request ''critique''))) =
         \<lparr>status = 500, body = ErrorPayload (''Error generating content: '' @ e)\<rparr>"
    by (simp add: onRequest_critique g catch_sdk_def)
qed

section \<open>The filters in the two prompt builders\<close>

lemma no_marker_jobs: "\<not> has_filter_clause jobs_instructions"
  unfolding has_filter_clause_def filter_marker_def jobs_instructions_def by code_simp

lemma no_marker_contacts: "\<not> has_filter_clause contacts_instructions"
  unfolding has_filter_clause_def filter_marker_def contacts_instructions_def by code_simp

lemma no_marker_critique: "\<not> has_filter_clause critique_instructions"
  unfolding has_filter_clause_def filter_marker_def critique_instructions_def by code_simp

lemma no_marker_critique_cf: "\<not> has_filter_clause critique_instructions_cf"
  unfolding has_filter_clause_def filter_marker_def critique_instructions_cf_def by code_simp

lemma no_marker_default: "\<not> has_filter_clause default_instructions"
  unfolding has_filter_clause_def filter_marker_def default_instructions_def by code_simp

lemma location_filter_Inr:
  "location_filter loc = Inr l \<Longrightarrow>
   (truthy loc \<longrightarrow> (\<exists>s. to_string loc = Inr s \<and> l = '' (Location: '' @ s @ '')'')) \<and>
   (\<not> truthy loc \<longrightarrow> l = [])"
  by (auto simp: location_filter_def and_then_eq_Inr split: if_splits)

lemma posted_filter_Inr:
  "posted_filter posted = Inr p \<Longrightarrow>
   (truthy posted \<and> posted \<noteq> Str ''any'' \<longrightarrow>
      (\<exists>s. posted = Str s \<and> p = '' (Posted: '' @ replace_first CHR ''_'' CHR '' '' s @ '')'')) \<and>
   (\<not> (truthy posted \<and> posted \<noteq> Str ''any'') \<longrightarrow> p = [])"
  by (cases posted)
     (auto simp: posted_filter_def replace_underscore_def and_then_eq_Inr and_then_Inl split: if_splits)

lemma filterString_Inr:
  assumes "filterString loc posted = Inr fs"
  shows "\<exists>l p. location_filter loc = Inr l \<and> posted_filter posted = Inr p \<and>
           fs = (if filters_supplied loc posted
                 then ''\<newline>\<newline>'' @ filter_marker @ l @ p @ ''**'' else [])"
proof -
  from assms obtain l p where lp: "location_filter loc = Inr l" "posted_filter posted = Inr p"
    and fs: "fs = (if l @ p \<noteq> []
            then ''\<newline>\<newline>**CRITICAL: You MUST adhere to these filters: '' @ (l @ p) @ ''**''
            else [])"
    by (auto simp: filterString_def and_then_eq_Inr)
  from location_filter_Inr[OF lp(1)] have l: "(l \<noteq> []) = truthy loc" by auto
  from posted_filter_Inr[OF lp(2)] have p: "(p \<noteq> []) = (truthy posted \<and> posted \<noteq> Str ''any'')"
    by auto
  have "(l @ p \<noteq> []) = filters_supplied loc posted"
    using l p by (auto simp: filters_supplied_def)
  with lp fs show ?thesis
    by (auto simp: filter_marker_def)
qed

lemma marker_appended:
  assumes "filterString loc posted = Inr fs"
  shows "has_filter_clause (base @ fs) = (has_filter_clause base \<or> filters_supplied loc posted)"
proof (cases "filters_supplied loc posted")
  case True
  from filterString_Inr[OF assms] True obtain l p where
    fs: "fs = ''\<newline>\<newline>'' @ filter_marker @ l @ p @ ''**''" by auto
  have "sublist filter_marker ((base @ ''\<newline>\<newline>'') @ filter_marker @ (l @ p @ ''**''))"
    by (rule sublist_appendI)
  with True fs show ?thesis
    by (simp add: has_filter_clause_def)
next
  case False
  with filterString_Inr[OF assms] have "fs = []" by auto
  with False show ?thesis by simp
qed

lemma getSystemPrompt_Inr:
  "getSystemPrompt ty loc posted = Inr p \<Longrightarrow>
   \<exists>fs. filterString loc posted = Inr fs \<and>
     p = (if ty = Str ''jobs'' then jobs_instructions @ fs
          else if ty = Str ''critique'' then critique_instructions
          else if ty = Str ''contacts'' then contacts_instructions @ fs
          else default_instructions)"
  by (auto simp: getSystemPrompt_def and_then_eq_Inr)

lemma getSystemPrompt_cf_Inr:
  "getSystemPrompt_cf ty loc posted = Inr p \<Longrightarrow>
   \<exists>fs. filterString loc posted = Inr fs \<and>
     p = (if ty = Str ''jobs'' then jobs_instructions @ fs
          else if ty = Str ''critique'' then critique_instructions_cf
          else if ty = Str ''contacts'' then contacts_instructions @ fs
          else default_instructions)"
  by (auto simp: getSystemPrompt_cf_def and_then_eq_Inr)

lemma getSystemPrompt_clause:
  assumes "getSystemPrompt ty loc posted = Inr p"
  shows "has_filter_clause p = (searching_type ty \<and> filters_supplied loc posted)"
proof -
  from getSystemPrompt_Inr[OF assms] obtain fs where fs: "filterString loc posted = Inr fs"
    and p: "p = (if ty = Str ''jobs'' then jobs_instructions @ fs
          else if ty = Str ''critique'' then critique_instructions
          else if ty = Str ''contacts'' then contacts_instructions @ fs
          else default_instructions)" by auto
  show ?thesis
    unfolding p
    by (simp add: searching_type_def marker_appended[OF fs]
        no_marker_jobs no_marker_contacts no_marker_critique no_marker_default)
qed

lemma getSystemPrompt_cf_clause:
  assumes "getSystemPrompt_cf ty loc posted = Inr p"
  shows "has_filter_clause p = (searching_type ty \<and> filters_supplied loc posted)"
proof -
  from getSystemPrompt_cf_Inr[OF assms] obtain fs where fs: "filterString loc posted = Inr fs"
    and p: "p = (if ty = Str ''jobs'' then jobs_instructions @ fs
          else if ty = Str ''critique'' then critique_instructions_cf
          else if ty = Str ''contacts'' then contacts_instructions @ fs
          else default_instructions)" by auto
  show ?thesis
    unfolding p
    by (simp add: searching_type_def marker_appended[OF fs]
        no_marker_jobs no_marker_contacts no_marker_critique_cf no_marker_default)
qed

lemma posted_any: "posted_filter (Str ''any'') = posted_filter Undefined"
  by (simp add: posted_filter_def)

lemma filterString_any: "filterString loc (Str ''any'') = filterString loc Undefined"
  by (simp add: filterString_def posted_any)

lemma searching_prompt:
  assumes "searching_type ty"
    and "getSystemPrompt ty loc posted = Inr p \<or> getSystemPrompt_cf ty loc posted = Inr p"
  shows "\<exists>base fs. filterString loc posted = Inr fs \<and> p = base @ fs"
  using assms getSystemPrompt_Inr[of ty loc posted p] getSystemPrompt_cf_Inr[of ty loc posted p]
  by (auto simp: searching_type_def)

lemma location_shown:
  assumes "filterString loc posted = Inr fs" and "truthy loc" and "to_string loc = Inr l"
  shows "sublist ('' (Location: '' @ l @ '')'') (base @ fs)"
proof -
  from filterString_Inr[OF assms(1)] assms(2) obtain lf pf where
    lf: "location_filter loc = Inr lf"
    and fs: "fs = ''\<newline>\<newline>'' @ filter_marker @ lf @ pf @ ''**''"
    by (auto simp: filters_supplied_def)
  from location_filter_Inr[OF lf] assms(2,3) have "lf = '' (Location: '' @ l @ '')''" by auto
  moreover have "sublist ('' (Location: '' @ l @ '')'')
      ((base @ ''\<newline>\<newline>'' @ filter_marker) @ ('' (Location: '' @ l @ '')'') @ (pf @ ''**''))"
    by (rule sublist_appendI)
  ultimately show ?thesis by (simp add: fs)
qed

lemma posted_shown:
  assumes "filterString loc (Str s) = Inr fs" and "s \<noteq> []" and "s \<noteq> ''any''"
  shows "sublist ('' (Posted: '' @ replace_first CHR ''_'' CHR '' '' s @ '')'') (base @ fs)"
proof -
  from filterString_Inr[OF assms(1)] assms(2,3) obtain lf pf where
    pf: "posted_filter (Str s) = Inr pf"
    and fs: "fs = ''\<newline>\<newline>'' @ filter_marker @ lf @ pf @ ''**''"
    by (auto simp: filters_supplied_def)
  from posted_filter_Inr[OF pf] assms(2,3)
  have "pf = '' (Posted: '' @ replace_first CHR ''_'' CHR '' '' s @ '')''" by auto
  moreover have "sublist ('' (Posted: '' @ replace_first CHR ''_'' CHR '' '' s @ '')'')
      ((base @ ''\<newline>\<newline>'' @ filter_marker @ lf) @
       ('' (Posted: '' @ replace_first CHR ''_'' CHR '' '' s @ '')'') @ ''**'')"
    by (rule sublist_appendI)
  ultimately show ?thesis by (simp add: fs)
qed

lemma posted_not_string:
  assumes "truthy posted" and "\<forall>s. posted \<noteq> Str s"
  shows "\<exists>e. filterString loc posted = Inl e"
proof -
  from assms have "posted_filter posted = Inl ''datePosted.replace is not a function''"
    by (cases posted) (auto simp: posted_filter_def replace_underscore_def and_then_Inl)
  then show ?thesis
    by (cases "location_filter loc") (simp_all add: filterString_def and_then_Inl and_then_Inr)
qed

lemma getSystemPrompt_throws:
  assumes "filterString loc posted = Inl e"
  shows "getSystemPrompt ty loc posted = Inl e" and "getSystemPrompt_cf ty loc posted = Inl e"
  using assms by (simp_all add: getSystemPrompt_def getSystemPrompt_cf_def and_then_Inl)

lemma getSystemPrompt_total:
  assumes "string_or_absent loc" and "string_or_absent posted"
  shows "\<exists>p. getSystemPrompt ty loc posted = Inr p" and "\<exists>p. getSystemPrompt_cf ty loc posted = Inr p"
  using filterString_total[OF assms]
  by (auto simp: getSystemPrompt_def getSystemPrompt_cf_def and_then_Inr)

lemma filter_line_in_jobs:
  "sublist ''**FILTER** your search based on these user-provided filters:'' jobs_template_1"
  unfolding jobs_template_1_def by code_simp

lemma jobs_template_1_ends: "suffix ''- Location: \"'' jobs_template_1"
  unfolding jobs_template_1_def by code_simp

lemma jobs_template_2_starts: "prefix ''\"'' jobs_template_2"
  unfolding jobs_template_2_def by code_simp

lemma jobs_template_2_ends: "suffix ''- Date Posted: \"'' jobs_template_2"
  unfolding jobs_template_2_def by code_simp

lemma jobs_template_3_starts: "prefix ''\"'' jobs_template_3"
  unfolding jobs_template_3_def by code_simp

lemma contacts_template_1_ends:
  "suffix ''**FILTER** your search based on the user-provided location: \"'' contacts_template_1"
  unfolding contacts_template_1_def by code_simp

lemma contacts_template_2_starts: "prefix ''\"'' contacts_template_2"
  unfolding contacts_template_2_def by code_simp

lemma sublist_between:
  assumes "suffix a t1" and "prefix b t2"
  shows "sublist (a @ x @ b) (pre @ t1 @ x @ t2 @ post)"
proof -
  from assms obtain u v where "t1 = u @ a" "t2 = b @ v"
    by (auto simp: suffix_def prefix_def)
  then have "pre @ t1 @ x @ t2 @ post = (pre @ u) @ (a @ x @ b) @ (v @ post)" by simp
  then show ?thesis by (simp only: sublist_appendI)
qed

lemma build_prompt_jobs:
  assumes "type d = Str ''jobs''" and "build_prompt d = Inr (p, ts)"
  shows "\<exists>l s. to_string (or_default (location d) ''any'') = Inr l \<and>
           to_string (or_default (datePosted d) ''any'') = Inr s \<and>
           p = jobs_template_1 @ l @ jobs_template_2 @ s @ jobs_template_3 \<and> ts = [google_search]"
  using assms by (auto simp: build_prompt_def and_then_eq_Inr)

lemma build_prompt_contacts:
  assumes "type d = Str ''contacts''" and "build_prompt d = Inr (p, ts)"
  shows "\<exists>l. to_string (or_default (location d) ''any'') = Inr l \<and>
           p = contacts_template_1 @ l @ contacts_template_2 \<and> ts = [google_search]"
  using assms by (auto simp: build_prompt_def and_then_eq_Inr)

lemma to_string_or_default:
  "\<not> truthy v \<Longrightarrow> to_string (or_default v d) = Inr d"
  "truthy v \<Longrightarrow> to_string (or_default v d) = to_string v"
  by (simp_all add: or_default_def)

lemma jobs_location_line:
  assumes "type d = Str ''jobs''" and "build_prompt d = Inr (p, ts)"
    and "to_string (or_default (location d) ''any'') = Inr l"
  shows "sublist (''- Location: \"'' @ l @ ''\"'') p"
proof -
  from build_prompt_jobs[OF assms(1,2)] assms(3) obtain s where
    p: "p = jobs_template_1 @ l @ jobs_template_2 @ s @ jobs_template_3" by auto
  have "sublist (''- Location: \"'' @ l @ ''\"'')
      ([] @ jobs_template_1 @ l @ jobs_template_2 @ (s @ jobs_template_3))"
    by (rule sublist_between[OF jobs_template_1_ends jobs_template_2_starts])
  then show ?thesis by (simp add: p)
qed

lemma jobs_posted_line:
  assumes "type d = Str ''jobs''" and "build_prompt d = Inr (p, ts)"
    and "to_string (or_default (datePosted d) ''any'') = Inr s"
  shows "sublist (''- Date Posted: \"'' @ s @ ''\"'') p"
proof -
  from build_prompt_jobs[OF assms(1,2)] assms(3) obtain l where
    p: "p = jobs_template_1 @ l @ jobs_template_2 @ s @ jobs_template_3" by auto
  have "sublist (''- Date Posted: \"'' @ s @ ''\"'')
      ((jobs_template_1 @ l) @ jobs_template_2 @ s @ jobs_template_3 @ [])"
    by (rule sublist_between[OF jobs_template_2_ends jobs_template_3_starts])
  then show ?thesis by (simp add: p)
qed

lemma jobs_filter_header:
  assumes "type d = Str ''jobs''" and "build_prompt d = Inr (p, ts)"
  shows "sublist ''**FILTER** your search based on these user-provided filters:'' p"
proof -
  from build_prompt_jobs[OF assms] obtain l s where
    p: "p = jobs_template_1 @ l @ jobs_template_2 @ s @ jobs_template_3" by auto
  show ?thesis
    unfolding p using filter_line_in_jobs sublist_append by blast
qed

lemma contacts_location_line:
  assumes "type d = Str ''contacts''" and "build_prompt d = Inr (p, ts)"
    and "to_string (or_default (location d) ''any'') = Inr l"
  shows "sublist (''**FILTER** your search based on the user-provided location: \"'' @ l @ ''\"'') p"
proof -
  from build_prompt_contacts[OF assms(1,2)] assms(3) have
    p: "p = contacts_template_1 @ l @ contacts_template_2" by auto
  have "sublist (''**FILTER** your search based on the user-provided location: \"'' @ l @ ''\"'')
      ([] @ contacts_template_1 @ l @ contacts_template_2 @ [])"
    by (rule sublist_between[OF contacts_template_1_ends contacts_template_2_starts])
  then show ?thesis by (simp add: p)
qed

lemma build_prompt_total:
  assumes "searching_type (type d)" and "string_or_absent (location d)"
    and "string_or_absent (datePosted d)"
  shows "\<exists>p. build_prompt d = Inr (p, [google_search])"
proof -
  have s: "\<exists>s. to_string (or_default v ''any'') = Inr s" if "string_or_absent v" for v
    using that by (cases v) (auto simp: string_or_absent_def or_default_def)
  from s[OF assms(2)] s[OF assms(3)] assms(1) show ?thesis
    by (auto simp: build_prompt_def searching_type_def and_then_Inr)
qed

lemma jobs_fields:
  "body_fields (analysis_request ''jobs'') =
     \<lparr>resumeText = Str jane, type = Str ''jobs'', location = Undefined, datePosted = Undefined\<rparr>"
  by (simp add: body_fields_def analysis_request_def)

lemma jobs_prepare:
  "prepare (cf_post (Str ''key'') (analysis_request ''jobs'')) =
     Inr (fetch_call
       (''https://generativelanguage.googleapis.com/v1beta/models/gemini-2.5-flash-preview-09-2025:generateContent?key='' @ ''key'')
       jane (jobs_template_1 @ ''any'' @ jobs_template_2 @ ''any'' @ jobs_template_3) [google_search])"
proof -
  have n: "\<not> nullish (analysis_request ''jobs'')"
    by (simp add: nullish_def analysis_request_def)
  show ?thesis
    by (simp add: prepare_def cf_post_def destructure_def n jobs_fields
        API_URL_def build_prompt_def or_default_def and_then_Inr)
qed

section \<open>An unrecognised analysis type\<close>

text \<open>
  Claim C1 says that every request whose \<open>type\<close> is not \<^verbatim>\<open>jobs\<close>, \<^verbatim>\<open>critique\<close> or
  \<^verbatim>\<open>contacts\<close> fails with an invalid-type error and issues no upstream call. The
  Vercel handler does neither for the type \<^verbatim>\<open>unknown\<close>: the \<^verbatim>\<open>default\<close> branch of
  \<^verbatim>\<open>getSystemPrompt\<close> returns a general prompt, the provider is called with it, and
  its answer is returned with status 200.
\<close>

theorem invalid_type_counterexample:
  "\<not> known_type (Str ''unknown'')
   \<and> sent (handler (Str ''key'') (sdk_returns (answer (Obj [(''text'', Str ''Hello.'')]) (Obj [])))
        (vercel_post (analysis_request ''unknown''))) =
      Some \<lparr>status = 200, body = Payload (Str ''Hello.'') []\<rparr>
   \<and> called (handler (Str ''key'') (sdk_returns (answer (Obj [(''text'', Str ''Hello.'')]) (Obj [])))
        (vercel_post (analysis_request ''unknown''))) =
      [sdk_request (Str ''key'') default_instructions (body_fields (analysis_request ''unknown''))]"
proof -
  let ?b = "analysis_request ''unknown''"
  let ?r = "answer (Obj [(''text'', Str ''Hello.'')]) (Obj [])"
  let ?c = "Obj [(''content'', Obj [(''parts'', Arr [Obj [(''text'', Str ''Hello.'')]])]),
                 (''groundingMetadata'', Obj [])]"
  have f: "body_fields ?b =
      \<lparr>resumeText = Str jane, type = Str ''unknown'', location = Undefined, datePosted = Undefined\<rparr>"
    by (simp add: body_fields_def analysis_request_def)
  have n: "\<not> nullish ?b" by (simp add: nullish_def analysis_request_def)
  have k: "\<not> known_type (Str ''unknown'')" by (simp add: known_type_def)
  have fs: "filterString Undefined Undefined = Inr []"
    by (simp add: filterString_def location_filter_def posted_filter_def and_then_Inr)
  have h: "handler (Str ''key'') (sdk_returns ?r) (vercel_post ?b) =
      Inr (generate ''Error in Vercel function:'' (sdk_returns ?r)
             (sdk_request (Str ''key'') default_instructions (body_fields ?b)))"
    using analyse_unknown(3)[of "body_fields ?b" "[]"] k fs
    by (simp add: handler_accepts vercel_post_def n f jane_def)
  have t: "first_part_text ?r = Inr (Str ''Hello.'', ?c)"
    by (simp add: first_part_text_def answer_def read_def read_first_def nullish_def and_then_Inr)
  have e: "extract_sources (property ?c ''groundingMetadata'') = Inr []"
    by (simp add: extract_sources_def)
  have g: "generate ''Error in Vercel function:'' (sdk_returns ?r)
             (sdk_request (Str ''key'') default_instructions (body_fields ?b)) =
      \<lparr>response = \<lparr>status = 200, body = Payload (Str ''Hello.'') []\<rparr>,
       upstream_calls = [sdk_request (Str ''key'') default_instructions (body_fields ?b)],
       console_error = []\<rparr>"
    by (rule generate_success[OF _ t e]) (simp add: sdk_returns_def)
  show ?thesis
    by (simp add: k h g sent_def called_def)
qed

text \<open>
  Claim C1, amended. In \<^verbatim>\<open>onRequestPost\<close>, a request whose body parses and whose
  \<open>type\<close> is not one of the three issues no upstream call and is answered with status
  500; when the body is not \<^verbatim>\<open>null\<close> and the credential is configured, the error is
  \<^verbatim>\<open>Invalid analysis type.\<close> In \<^verbatim>\<open>handler\<close> and \<^verbatim>\<open>onRequest\<close> no type raises an
  invalid-type error. There, consider an accepted request (credential configured, method
  POST, a body other than \<^verbatim>\<open>null\<close>, \<open>resumeText\<close> and \<open>type\<close> truthy) whose \<open>type\<close>
  is not one of the three. \<^verbatim>\<open>getSystemPrompt\<close> builds the filter string before it
  looks at the type. If that throws, the request is answered 500 with the thrown message
  and no upstream call is made; otherwise the request is sent to the provider exactly
  once, with the default prompt and without the search tool. The filter string is built
  without an error whenever \<open>location\<close> and \<open>datePosted\<close> are strings or absent.
\<close>

theorem invalid_type_amended:
  "(request_json ctx = Inr b \<and> \<not> known_type (property b ''type'') \<longrightarrow>
      upstream_calls (onRequestPost fetch ctx) = [] \<and>
      status (response (onRequestPost fetch ctx)) = 500 \<and>
      (\<not> nullish b \<and> env_GEMINI_API_KEY ctx = Str k \<and> k \<noteq> [] \<longrightarrow>
         body (response (onRequestPost fetch ctx)) = ErrorPayload ''Invalid analysis type.''))
   \<and> (truthy key \<and> req_method rq = ''POST'' \<and> \<not> nullish (req_body rq) \<and>
       truthy (property (req_body rq) ''resumeText'') \<and> truthy (property (req_body rq) ''type'') \<and>
       \<not> known_type (property (req_body rq) ''type'') \<longrightarrow>
      (filterString (property (req_body rq) ''location'') (property (req_body rq) ''datePosted'') = Inl e \<longrightarrow>
         sent (handler key generateContent rq) =
           Some \<lparr>status = 500, body = ErrorPayload (''Error generating content: '' @ e)\<rparr> \<and>
         called (handler key generateContent rq) = []) \<and>
      (filterString (property (req_body rq) ''location'') (property (req_body rq) ''datePosted'') = Inr fs \<longrightarrow>
         called (handler key generateContent rq) =
           [sdk_request key default_instructions (body_fields (req_body rq))] \<and>
         \<not> sdk_search_attached (sdk_request key default_instructions (body_fields (req_body rq)))))
   \<and> (truthy (env_GEMINI_API_KEY ctx) \<and> request_method ctx = ''POST'' \<and>
       request_json ctx = Inr b \<and> \<not> nullish b \<and>
       truthy (property b ''resumeText'') \<and> truthy (property b ''type'') \<and>
       \<not> known_type (property b ''type'') \<longrightarrow>
      (filterString (property b ''location'') (property b ''datePosted'') = Inl e \<longrightarrow>
         response (onRequest generateContent ctx) =
           \<lparr>status = 500, body = ErrorPayload (''Error generating content: '' @ e)\<rparr> \<and>
         upstream_calls (onRequest generateContent ctx) = []) \<and>
      (filterString (property b ''location'') (property b ''datePosted'') = Inr fs \<longrightarrow>
         upstream_calls (onRequest generateContent ctx) =
           [sdk_request (env_GEMINI_API_KEY ctx) default_instructions (body_fields b)] \<and>
         \<not> sdk_search_attached (sdk_request (env_GEMINI_API_KEY ctx) default_instructions (body_fields b))))
   \<and> (string_or_absent loc \<and> string_or_absent posted \<longrightarrow> (\<exists>fs'. filterString loc posted = Inr fs'))"
proof (intro conjI impI)
  assume h: "request_json ctx = Inr b \<and> \<not> known_type (property b ''type'')"
  then show "upstream_calls (onRequestPost fetch ctx) = []"
    using pages_unknown(1) by blast
  from h show "status (response (onRequestPost fetch ctx)) = 500"
    using pages_unknown(2) by blast
  assume "\<not> nullish b \<and> env_GEMINI_API_KEY ctx = Str k \<and> k \<noteq> []"
  with h show "body (response (onRequestPost fetch ctx)) = ErrorPayload ''Invalid analysis type.''"
    using pages_invalid_type by blast
next
  assume h: "truthy key \<and> req_method rq = ''POST'' \<and> \<not> nullish (req_body rq) \<and>
       truthy (property (req_body rq) ''resumeText'') \<and> truthy (property (req_body rq) ''type'') \<and>
       \<not> known_type (property (req_body rq) ''type'')"
  let ?d = "body_fields (req_body rq)"
  from h have acc: "handler key generateContent rq =
      Inr (analyse ''Error in Vercel function:'' generateContent key
             (getSystemPrompt (type ?d) (location ?d) (datePosted ?d)) ?d)"
    by (simp add: handler_accepts type_body_fields fields_simps)
  from h have u: "\<not> known_type (type ?d)" by (simp add: type_body_fields)
  {
    assume "filterString (property (req_body rq) ''location'') (property (req_body rq) ''datePosted'') = Inl e"
    then have "filterString (location ?d) (datePosted ?d) = Inl e" by (simp add: fields_simps)
    from analyse_unknown(1)[OF u this] acc
    show "sent (handler key generateContent rq) =
           Some \<lparr>status = 500, body = ErrorPayload (''Error generating content: '' @ e)\<rparr>"
      and "called (handler key generateContent rq) = []"
      by (simp_all add: sent_def called_def catch_sdk_def)
  }
  {
    assume "filterString (property (req_body rq) ''location'') (property (req_body rq) ''datePosted'') = Inr fs"
    then have "filterString (location ?d) (datePosted ?d) = Inr fs" by (simp add: fields_simps)
    from analyse_unknown(3)[OF u this] acc
    show "called (handler key generateContent rq) = [sdk_request key default_instructions ?d]"
      by (simp add: called_def generate_calls_eq)
    from u show "\<not> sdk_search_attached (sdk_request key default_instructions ?d)"
      by (auto simp: sdk_request_tools searching_type_def known_type_def)
  }
next
  assume h: "truthy (env_GEMINI_API_KEY ctx) \<and> request_method ctx = ''POST'' \<and>
       request_json ctx = Inr b \<and> \<not> nullish b \<and>
       truthy (property b ''resumeText'') \<and> truthy (property b ''type'') \<and>
       \<not> known_type (property b ''type'')"
  let ?d = "body_fields b"
  from h have acc: "onRequest generateContent ctx =
      analyse ''Error in Cloudflare function:'' generateContent (env_GEMINI_API_KEY ctx)
        (getSystemPrompt_cf (type ?d) (location ?d) (datePosted ?d)) ?d"
    by (simp add: onRequest_accepts[where b = b] type_body_fields fields_simps)
  from h have u: "\<not> known_type (type ?d)" by (simp add: type_body_fields)
  {
    assume "filterString (property b ''location'') (property b ''datePosted'') = Inl e"
    then have "filterString (location ?d) (datePosted ?d) = Inl e" by (simp add: fields_simps)
    from analyse_unknown(2)[OF u this] acc
    show "response (onRequest generateContent ctx) =
           \<lparr>status = 500, body = ErrorPayload (''Error generating content: '' @ e)\<rparr>"
      and "upstream_calls (onRequest generateContent ctx) = []"
      by (simp_all add: catch_sdk_def)
  }
  {
    assume "filterString (property b ''location'') (property b ''datePosted'') = Inr fs"
    then have "filterString (location ?d) (datePosted ?d) = Inr fs" by (simp add: fields_simps)
    from analyse_unknown(4)[OF u this] acc
    show "upstream_calls (onRequest generateContent ctx) =
        [sdk_request (env_GEMINI_API_KEY ctx) default_instructions ?d]"
      by (simp add: generate_calls_eq)
    from u show "\<not> sdk_search_attached (sdk_request (env_GEMINI_API_KEY ctx) default_instructions ?d)"
      by (auto simp: sdk_request_tools searching_type_def known_type_def)
  }
next
  assume "string_or_absent loc \<and> string_or_absent posted"
  then show "\<exists>fs'. filterString loc posted = Inr fs'"
    using filterString_total by blast
qed

text \<open>
  The three handlers on the example request with the type \<^verbatim>\<open>unknown\<close>, and the two
  SDK handlers on the same request with the number 7 as \<open>datePosted\<close>.
\<close>

theorem invalid_type_amended_witness:
  "\<not> known_type (property (analysis_request ''unknown'') ''type'')
   \<and> upstream_calls (onRequestPost (fetch_fails ''unreachable'')
        (cf_post (Str ''key'') (analysis_request ''unknown''))) = []
   \<and> status (response (onRequestPost (fetch_fails ''unreachable'')
        (cf_post (Str ''key'') (analysis_request ''unknown'')))) = 500
   \<and> body (response (onRequestPost (fetch_fails ''unreachable'')
        (cf_post (Str ''key'') (analysis_request ''unknown'')))) =
      ErrorPayload ''Invalid analysis type.''
   \<and> called (handler (Str ''key'') (sdk_fails ''unreachable'')
        (vercel_post (analysis_request ''unknown''))) =
      [sdk_request (Str ''key'') default_instructions (body_fields (analysis_request ''unknown''))]
   \<and> upstream_calls (onRequest (sdk_fails ''unreachable'')
        (cf_post (Str ''key'') (analysis_request ''unknown''))) =
      [sdk_request (Str ''key'') default_instructions (body_fields (analysis_request ''unknown''))]
   \<and> sent (handler (Str ''key'') (sdk_fails ''unreachable'')
        (vercel_post (Obj [(''resumeText'', Str jane), (''type'', Str ''unknown''),
                           (''datePosted'', Num True ''7'')]))) =
      Some \<lparr>status = 500,
            body = ErrorPayload (''Error generating content: '' @ ''datePosted.replace is not a function'')\<rparr>
   \<and> called (handler (Str ''key'') (sdk_fails ''unreachable'')
        (vercel_post (Obj [(''resumeText'', Str jane), (''type'', Str ''unknown''),
                           (''datePosted'', Num True ''7'')]))) = []
   \<and> response (onRequest (sdk_fails ''unreachable'')
        (cf_post (Str ''key'') (Obj [(''resumeText'', Str jane), (''type'', Str ''unknown''),
                           (''datePosted'', Num True ''7'')]))) =
      \<lparr>status = 500,
       body = ErrorPayload (''Error generating content: '' @ ''datePosted.replace is not a function'')\<rparr>
   \<and> upstream_calls (onRequest (sdk_fails ''unreachable'')
        (cf_post (Str ''key'') (Obj [(''resumeText'', Str jane), (''type'', Str ''unknown''),
                           (''datePosted'', Num True ''7'')]))) = []
   \<and> (\<exists>fs'. filterString (Str ''Seattle'') (Str ''past_week'') = Inr fs')"
proof -
  let ?bu = "analysis_request ''unknown''"
  let ?bt = "Obj [(''resumeText'', Str jane), (''type'', Str ''unknown''), (''datePosted'', Num True ''7'')]"
  let ?K = "Str ''key''"
  let ?f = "fetch_fails ''unreachable''"
  let ?g = "sdk_fails ''unreachable''"
  let ?e = "''datePosted.replace is not a function''"
  have nj: "jane \<noteq> []" by (simp add: jane_def)
  have u: "\<not> known_type (property ?bu ''type'')" "\<not> nullish ?bu"
    "truthy (property ?bu ''resumeText'')" "truthy (property ?bu ''type'')"
    by (simp_all add: analysis_request_def known_type_def nullish_def nj)
  have t: "\<not> known_type (property ?bt ''type'')" "\<not> nullish ?bt"
    "truthy (property ?bt ''resumeText'')" "truthy (property ?bt ''type'')"
    by (simp_all add: known_type_def nullish_def nj)
  have cu: "request_json (cf_post ?K ?bu) = Inr ?bu" "env_GEMINI_API_KEY (cf_post ?K ?bu) = Str ''key''"
    "request_method (cf_post ?K ?bu) = ''POST''" "''key'' \<noteq> []" "truthy ?K"
    "truthy (env_GEMINI_API_KEY (cf_post ?K ?bu))"
    by (simp_all add: cf_post_def)
  have ct: "request_json (cf_post ?K ?bt) = Inr ?bt" "env_GEMINI_API_KEY (cf_post ?K ?bt) = Str ''key''"
    "request_method (cf_post ?K ?bt) = ''POST''" "truthy (env_GEMINI_API_KEY (cf_post ?K ?bt))"
    by (simp_all add: cf_post_def)
  have vu: "req_method (vercel_post ?bu) = ''POST''" "req_body (vercel_post ?bu) = ?bu"
    by (simp_all add: vercel_post_def)
  have vt: "req_method (vercel_post ?bt) = ''POST''" "req_body (vercel_post ?bt) = ?bt"
    by (simp_all add: vercel_post_def)
  have fu: "filterString (property ?bu ''location'') (property ?bu ''datePosted'') = Inr []"
    by (simp add: analysis_request_def filterString_def location_filter_def posted_filter_def and_then_Inr)
  have ft: "filterString (property ?bt ''location'') (property ?bt ''datePosted'') = Inl ?e"
    by (simp add: filterString_def location_filter_def posted_filter_def replace_underscore_def
        and_then_Inr and_then_Inl)
  have sa: "string_or_absent (Str ''Seattle'')" "string_or_absent (Str ''past_week'')"
    by (simp_all add: string_or_absent_def)
  note iu = invalid_type_amended[where ctx = "cf_post ?K ?bu" and b = ?bu and fetch = ?f and k = "''key''"
      and key = ?K and rq = "vercel_post ?bu" and e = ?e and generateContent = ?g and fs = "[]"
      and loc = "Str ''Seattle''" and posted = "Str ''past_week''"]
  note it = invalid_type_amended[where ctx = "cf_post ?K ?bt" and b = ?bt and fetch = ?f and k = "''key''"
      and key = ?K and rq = "vercel_post ?bt" and e = ?e and generateContent = ?g and fs = "[]"
      and loc = "Str ''Seattle''" and posted = "Str ''past_week''"]
  have p: "upstream_calls (onRequestPost ?f (cf_post ?K ?bu)) = [] \<and>
      status (response (onRequestPost ?f (cf_post ?K ?bu))) = 500 \<and>
      body (response (onRequestPost ?f (cf_post ?K ?bu))) = ErrorPayload ''Invalid analysis type.''"
    using iu[THEN conjunct1] u cu by (simp only: simp_thms)
  have hu: "called (handler ?K ?g (vercel_post ?bu)) = [sdk_request ?K default_instructions (body_fields ?bu)]"
    using iu[THEN conjunct2, THEN conjunct1] u cu(5) fu by (simp only: vu simp_thms)
  have wu: "upstream_calls (onRequest ?g (cf_post ?K ?bu)) =
      [sdk_request ?K default_instructions (body_fields ?bu)]"
    using iu[THEN conjunct2, THEN conjunct2, THEN conjunct1] u cu(1,3,6) fu
    by (simp only: cu(2) simp_thms)
  have ht: "sent (handler ?K ?g (vercel_post ?bt)) =
      Some \<lparr>status = 500, body = ErrorPayload (''Error generating content: '' @ ?e)\<rparr> \<and>
      called (handler ?K ?g (vercel_post ?bt)) = []"
    using it[THEN conjunct2, THEN conjunct1] t cu(5) ft by (simp only: vt simp_thms)
  have wt: "response (onRequest ?g (cf_post ?K ?bt)) =
      \<lparr>status = 500, body = ErrorPayload (''Error generating content: '' @ ?e)\<rparr> \<and>
      upstream_calls (onRequest ?g (cf_post ?K ?bt)) = []"
    using it[THEN conjunct2, THEN conjunct2, THEN conjunct1] t ct(1,3,4) ft
    by (simp only: simp_thms)
  have tot: "\<exists>fs'. filterString (Str ''Seattle'') (Str ''past_week'') = Inr fs'"
    using iu[THEN conjunct2, THEN conjunct2, THEN conjunct2] sa by (simp only: simp_thms)
  from u(1) p hu wu ht wt tot show ?thesis
    by (simp only: simp_thms)
qed

section \<open>Missing required fields\<close>




section \<open>The search tool\<close>

text \<open>
  Claim C3. Whenever a handler calls the provider, the search tool is declared in that
  outbound call if and only if the request's \<open>type\<close> is \<^verbatim>\<open>jobs\<close> or \<^verbatim>\<open>contacts\<close>;
  for \<^verbatim>\<open>critique\<close>, and for every other type that reaches the call, no search tool is
  declared. This holds for each of the three handlers.
\<close>

theorem search_tool_iff:
  "(c \<in> set (upstream_calls (onRequestPost fetch ctx)) \<longrightarrow>
      (\<exists>b. request_json ctx = Inr b \<and> search_attached c = searching_type (property b ''type'')))
   \<and> (c' \<in> set (called (handler key generateContent rq)) \<longrightarrow>
      sdk_search_attached c' = searching_type (property (req_body rq) ''type''))
   \<and> (c' \<in> set (upstream_calls (onRequest generateContent ctx)) \<longrightarrow>
      (\<exists>b. request_json ctx = Inr b \<and> sdk_search_attached c' = searching_type (property b ''type'')))"
proof (intro conjI impI)
  assume "c \<in> set (upstream_calls (onRequestPost fetch ctx))"
  then have "prepare ctx = Inr c" by (rule pages_calls)
  then obtain b api_url p ts resume where d: "request_json ctx = Inr b"
    "build_prompt (body_fields b) = Inr (p, ts)" "c = fetch_call api_url resume p ts"
    using prepare_Inr by blast
  have "search_attached c = searching_type (property b ''type'')"
    using d build_prompt_tools[OF d(2)] by (simp add: search_attached_def fetch_call_def type_body_fields)
  with d show "\<exists>b. request_json ctx = Inr b \<and> search_attached c = searching_type (property b ''type'')"
    by blast
next
  assume "c' \<in> set (called (handler key generateContent rq))"
  then show "sdk_search_attached c' = searching_type (property (req_body rq) ''type'')"
    using handler_calls sdk_request_tools type_body_fields by metis
next
  assume "c' \<in> set (upstream_calls (onRequest generateContent ctx))"
  then show "\<exists>b. request_json ctx = Inr b \<and> sdk_search_attached c' = searching_type (property b ''type'')"
    using onRequest_calls sdk_request_tools type_body_fields by metis
qed

text \<open>
  The three handlers run on the example request: \<^verbatim>\<open>jobs\<close> and \<^verbatim>\<open>contacts\<close> send the
  search tool, \<^verbatim>\<open>critique\<close> does not.
\<close>

theorem search_tool_iff_witness:
  "map search_attached
     (upstream_calls (onRequestPost (fetch_fails ''fetch failed'')
        (cf_post (Str ''key'') (analysis_request ''jobs'')))) = [True]
   \<and> map sdk_search_attached
     (called (handler (Str ''key'') (sdk_fails ''fetch failed'') (vercel_post (analysis_request ''critique''))))
     = [False]
   \<and> map sdk_search_attached
     (upstream_calls (onRequest (sdk_fails ''fetch failed'')
        (cf_post (Str ''key'') (analysis_request ''contacts'')))) = [True]"
proof -
  let ?jobs = "analysis_request ''jobs''"
  let ?critique = "analysis_request ''critique''"
  let ?contacts = "analysis_request ''contacts''"
  let ?c1 = "fetch_call
      (''https://generativelanguage.googleapis.com/v1beta/models/gemini-2.5-flash-preview-09-2025:generateContent?key='' @ ''key'')
      jane (jobs_template_1 @ ''any'' @ jobs_template_2 @ ''any'' @ jobs_template_3) [google_search]"
  let ?c2 = "sdk_request (Str ''key'') critique_instructions (body_fields ?critique)"
  let ?c3 = "sdk_request (Str ''key'') contacts_instructions (body_fields ?contacts)"
  have p1: "prepare (cf_post (Str ''key'') ?jobs) = Inr ?c1"
    by (simp add: prepare_def cf_post_def analysis_request_def destructure_def nullish_def
        body_fields_def API_URL_def build_prompt_def or_default_def and_then_Inr)
  have u1: "upstream_calls (onRequestPost (fetch_fails ''fetch failed'') (cf_post (Str ''key'') ?jobs)) = [?c1]"
    by (simp add: onRequestPost_def p1 fetch_fails_def catch_pages_def)
  have f2: "body_fields ?critique =
      \<lparr>resumeText = Str jane, type = Str ''critique'', location = Undefined, datePosted = Undefined\<rparr>"
    by (simp add: body_fields_def analysis_request_def)
  have f3: "body_fields ?contacts =
      \<lparr>resumeText = Str jane, type = Str ''contacts'', location = Undefined, datePosted = Undefined\<rparr>"
    by (simp add: body_fields_def analysis_request_def)
  have nj: "jane \<noteq> []" by (simp add: jane_def)
  have u2: "called (handler (Str ''key'') (sdk_fails ''fetch failed'') (vercel_post ?critique)) = [?c2]"
    by (simp add: called_def handler_def vercel_post_def destructure_def nullish_def analysis_request_def
        f2[unfolded analysis_request_def] nj and_then_Inr critique_prompt analyse_def generate_calls_eq)
  have u3: "upstream_calls (onRequest (sdk_fails ''fetch failed'') (cf_post (Str ''key'') ?contacts)) = [?c3]"
    by (simp add: onRequest_def cf_post_def destructure_def nullish_def analysis_request_def
        f3[unfolded analysis_request_def] nj and_then_Inr contacts_prompt_cf analyse_def generate_calls_eq)
  note inst = search_tool_iff[of ?c1 "fetch_fails ''fetch failed''" "cf_post (Str ''key'') ?jobs"
      ?c2 "Str ''key''" "sdk_fails ''fetch failed''" "vercel_post ?critique"]
  note inst' = search_tool_iff[of ?c1 "fetch_fails ''fetch failed''" "cf_post (Str ''key'') ?contacts"
      ?c3 "Str ''key''" "sdk_fails ''fetch failed''" "vercel_post ?critique"]
  have a1: "search_attached ?c1"
    using inst[THEN conjunct1] u1
    by (auto simp: cf_post_def analysis_request_def searching_type_def)
  have a2: "\<not> sdk_search_attached ?c2"
    using inst[THEN conjunct2, THEN conjunct1] u2
    by (auto simp: vercel_post_def analysis_request_def searching_type_def)
  have a3: "sdk_search_attached ?c3"
    using inst'[THEN conjunct2, THEN conjunct2] u3
    by (auto simp: cf_post_def analysis_request_def searching_type_def)
  show ?thesis
    by (simp only: u1 u2 u3 list.map a1 a2 a3)
qed

section \<open>The sources\<close>

text \<open>
  Claim C4 says that an attribution of the provider's response appears among the
  returned \<open>sources\<close> if and only if both its \<open>uri\<close> and its \<open>title\<close> are present and
  non-empty, and that a malformed entry is dropped and never causes an error. The
  handlers guard the \<^verbatim>\<open>web\<close> object of an attribution with \<^verbatim>\<open>?.\<close>, but not the
  attribution itself. On a response whose attributions are a well-formed one followed by
  \<^verbatim>\<open>null\<close>, reading \<^verbatim>\<open>web\<close> of the second entry throws, and each of the three
  handlers answers 500 with the error's message. Of two attributions that are objects,
  one of them with an empty title, exactly the other one is returned, as the claim says;
  the lemmas \<open>extract_sources_array\<close> and \<open>critique_answers\<close> above give this part of the
  claim for every list of attributions without a \<^verbatim>\<open>null\<close> entry.
\<close>

theorem sources_null_attribution:
  "extract_sources
     (Obj [(''groundingAttributions'', Arr [cited ''https://a.example'' ''A'', Null])]) =
     Inl (cannot_read Null ''web'')
   \<and> response (onRequestPost
        (fetch_returns (answer (Obj [(''text'', Str ''Found.'')])
           (Obj [(''groundingAttributions'', Arr [cited ''https://a.example'' ''A'', Null])])))
        (cf_post (Str ''key'') (analysis_request ''critique''))) =
      \<lparr>status = 500, body = ErrorPayload (cannot_read Null ''web'')\<rparr>
   \<and> sent (handler (Str ''key'')
        (sdk_returns (answer (Obj [(''text'', Str ''Found.'')])
           (Obj [(''groundingAttributions'', Arr [cited ''https://a.example'' ''A'', Null])])))
        (vercel_post (analysis_request ''critique''))) =
      Some \<lparr>status = 500,
         body = ErrorPayload (''Error generating content: '' @ cannot_read Null ''web'')\<rparr>
   \<and> response (onRequest
        (sdk_returns (answer (Obj [(''text'', Str ''Found.'')])
           (Obj [(''groundingAttributions'', Arr [cited ''https://a.example'' ''A'', Null])])))
        (cf_post (Str ''key'') (analysis_request ''critique''))) =
      \<lparr>status = 500,
       body = ErrorPayload (''Error generating content: '' @ cannot_read Null ''web'')\<rparr>
   \<and> extract_sources
       (Obj [(''groundingAttributions'',
              Arr [cited ''https://a.example'' ''A'', cited ''https://b.example'' []])]) =
     Inr [\<lparr>uri = Str ''https://a.example'', title = Str ''A''\<rparr>]
   \<and> cannot_read Null ''web'' =
     ''Cannot read properties of null (reading '' @ [CHR 0x27] @ ''web'' @ [CHR 0x27] @ '')''"
proof -
  have e: "extract_sources
     (Obj [(''groundingAttributions'', Arr [cited ''https://a.example'' ''A'', Null])]) =
     Inl (cannot_read Null ''web'')"
    by (simp add: extract_sources_def to_source_def read_def nullish_def cited_def
        and_then_Inr and_then_Inl)
  have w: "extract_sources
       (Obj [(''groundingAttributions'',
              Arr [cited ''https://a.example'' ''A'', cited ''https://b.example'' []])]) =
     Inr [\<lparr>uri = Str ''https://a.example'', title = Str ''A''\<rparr>]"
    by (simp add: extract_sources_def to_source_def read_def nullish_def cited_def
        and_then_Inr valid_source_def)
  have m: "cannot_read Null ''web'' =
     ''Cannot read properties of null (reading '' @ [CHR 0x27] @ ''web'' @ [CHR 0x27] @ '')''"
    by (simp add: cannot_read_def)
  show ?thesis
    using m by (simp only: e w critique_fails[OF e] simp_thms)
qed

section \<open>A first part without text\<close>

text \<open>
  Claim C5 says that a response whose first part has no text is answered with status 200
  and the text \<^verbatim>\<open>No response text found.\<close> \<^verbatim>\<open>onRequestPost\<close> does so. \<^verbatim>\<open>handler\<close>
  and \<^verbatim>\<open>onRequest\<close> read the text without a default: on the same response they answer
  200 with the text \<^verbatim>\<open>undefined\<close>.
\<close>

theorem placeholder_missing:
  "candidate_text (first_element (property (answer (Obj []) (Obj [])) ''candidates'')) = Undefined
   \<and> sent (handler (Str ''key'') (sdk_returns (answer (Obj []) (Obj [])))
        (vercel_post (analysis_request ''critique''))) =
        Some \<lparr>status = 200, body = Payload Undefined []\<rparr>
   \<and> response (onRequest (sdk_returns (answer (Obj []) (Obj [])))
        (cf_post (Str ''key'') (analysis_request ''critique''))) =
        \<lparr>status = 200, body = Payload Undefined []\<rparr>
   \<and> response (onRequestPost (fetch_returns (answer (Obj []) (Obj [])))
        (cf_post (Str ''key'') (analysis_request ''critique''))) =
        \<lparr>status = 200, body = Payload (Str ''No response text found.'') []\<rparr>"
proof -
  have a: "candidate_text (first_element (property (answer (Obj []) (Obj [])) ''candidates'')) = Undefined"
    by (simp add: candidate_text_def answer_def)
  have e: "extract_sources (property
      (Obj [(''content'', Obj [(''parts'', Arr [Obj []])]), (''groundingMetadata'', Obj [])])
      ''groundingMetadata'') = Inr []"
    by (simp add: extract_sources_def)
  have g: "generate l (sdk_returns (answer (Obj []) (Obj []))) call =
      \<lparr>response = \<lparr>status = 200, body = Payload Undefined []\<rparr>,
       upstream_calls = [call], console_error = []\<rparr>" for l call
    by (rule generate_success[OF _ no_text_response e]) (simp add: sdk_returns_def)
  have fc: "first_candidate (answer (Obj []) (Obj [])) =
      Inr (Obj [(''content'', Obj [(''parts'', Arr [Obj []])]), (''groundingMetadata'', Obj [])])"
    by (simp add: first_candidate_def answer_def read_def nullish_def and_then_Inr)
  have p: "response (onRequestPost (fetch_returns (answer (Obj []) (Obj [])))
        (cf_post (Str ''key'') (analysis_request ''critique''))) =
        \<lparr>status = 200, body = Payload (Str ''No response text found.'') []\<rparr>"
    by (rule pages_placeholder[where resp = "\<lparr>ok = True, json = Inr (answer (Obj []) (Obj []))\<rparr>",
          OF critique_prepare _ _ _ fc e])
       (simp_all add: fetch_returns_def candidate_text_def)
  show ?thesis
    by (simp add: a handler_critique onRequest_critique g sent_def p)
qed

section \<open>A missing credential\<close>

text \<open>
  Claim C6 says that without the credential every request fails with the configuration
  error, whether or not its body is valid. \<^verbatim>\<open>onRequestPost\<close> parses the body before it
  reads the credential: for a body that does not parse, the error of the response is the
  parser's message, not the configuration error.
\<close>

theorem credential_counterexample:
  "\<not> truthy Undefined
   \<and> response (onRequestPost (fetch_fails ''unreachable'')
        \<lparr>request_method = ''POST'', request_json = Inl ''Unexpected end of JSON input'',
         env_GEMINI_API_KEY = Undefined\<rparr>) =
      \<lparr>status = 500, body = ErrorPayload ''Unexpected end of JSON input''\<rparr>
   \<and> ''Unexpected end of JSON input'' \<noteq> ''API key is not configured.''"
  by (simp add: onRequestPost_def prepare_def and_then_Inl catch_pages_def)

text \<open>
  Claim C6, amended. Without the credential every handler answers with status 500 and
  issues no upstream call, whatever the request is. The error is the configuration error
  in \<^verbatim>\<open>handler\<close> and \<^verbatim>\<open>onRequest\<close>, which check the credential first, and in
  \<^verbatim>\<open>onRequestPost\<close> when the body parses to a value other than \<^verbatim>\<open>null\<close>. Otherwise
  \<^verbatim>\<open>onRequestPost\<close> reports the message of the error thrown before the credential is
  read: the parser's, or that of destructuring \<^verbatim>\<open>null\<close>.
\<close>

theorem credential_amended:
  "(\<not> truthy key \<longrightarrow>
      sent (handler key generateContent rq) =
        Some \<lparr>status = 500,
         body = ErrorPayload
           ''API key is missing. Please add GEMINI_API_KEY to your Vercel Environment Variables.''\<rparr> \<and>
      called (handler key generateContent rq) = [])
   \<and> (\<not> truthy (env_GEMINI_API_KEY ctx) \<longrightarrow>
      response (onRequest generateContent ctx) =
        \<lparr>status = 500,
         body = ErrorPayload
           ''API key is missing. Please add GEMINI_API_KEY to your Cloudflare project.''\<rparr> \<and>
      upstream_calls (onRequest generateContent ctx) = [] \<and>
      status (response (onRequestPost fetch ctx)) = 500 \<and>
      upstream_calls (onRequestPost fetch ctx) = [] \<and>
      body (response (onRequestPost fetch ctx)) =
        ErrorPayload (case and_then (request_json ctx) (destructure ''requestData'') of
                        Inl e \<Rightarrow> e
                      | Inr d \<Rightarrow> ''API key is not configured.''))"
  by (simp add: handler_def sent_def called_def onRequest_def reject_def onRequestPost_def
      prepare_no_key catch_pages_def)

text \<open>
  An absent key with a GET request, and an empty key with a body that lacks
  \<open>resumeText\<close>.
\<close>

theorem credential_amended_witness:
  "\<not> truthy Undefined
   \<and> sent (handler Undefined (sdk_fails ''unreachable'')
        \<lparr>req_method = ''GET'', req_body = analysis_request ''critique''\<rparr>) =
        Some \<lparr>status = 500,
         body = ErrorPayload
           ''API key is missing. Please add GEMINI_API_KEY to your Vercel Environment Variables.''\<rparr>
   \<and> called (handler Undefined (sdk_fails ''unreachable'')
        \<lparr>req_method = ''GET'', req_body = analysis_request ''critique''\<rparr>) = []
   \<and> \<not> truthy (env_GEMINI_API_KEY (cf_post (Str []) (Obj [(''type'', Str ''jobs'')])))
   \<and> response (onRequest (sdk_fails ''unreachable'') (cf_post (Str []) (Obj [(''type'', Str ''jobs'')]))) =
        \<lparr>status = 500,
         body = ErrorPayload
           ''API key is missing. Please add GEMINI_API_KEY to your Cloudflare project.''\<rparr>
   \<and> response (onRequestPost (fetch_fails ''unreachable'') (cf_post (Str []) (Obj [(''type'', Str ''jobs'')]))) =
        \<lparr>status = 500, body = ErrorPayload ''API key is not configured.''\<rparr>
   \<and> upstream_calls (onRequestPost (fetch_fails ''unreachable'')
        (cf_post (Str []) (Obj [(''type'', Str ''jobs'')]))) = []"
proof -
  let ?ctx = "cf_post (Str []) (Obj [(''type'', Str ''jobs'')])"
  let ?rq = "\<lparr>req_method = ''GET'', req_body = analysis_request ''critique''\<rparr>"
  have k: "\<not> truthy Undefined" "\<not> truthy (env_GEMINI_API_KEY ?ctx)"
    by (simp_all add: cf_post_def)
  have j: "(case and_then (request_json ?ctx) (destructure ''requestData'') of
              Inl e \<Rightarrow> e | Inr d \<Rightarrow> ''API key is not configured.'') = ''API key is not configured.''"
    by (simp add: cf_post_def and_then_Inr destructure_def nullish_def)
  note inst = credential_amended[of Undefined "sdk_fails ''unreachable''" ?rq ?ctx "fetch_fails ''unreachable''"]
  have r: "response (onRequestPost (fetch_fails ''unreachable'') ?ctx) =
      \<lparr>status = status (response (onRequestPost (fetch_fails ''unreachable'') ?ctx)),
       body = body (response (onRequestPost (fetch_fails ''unreachable'') ?ctx))\<rparr>"
    by simp
  from inst[THEN conjunct2] k have p: "status (response (onRequestPost (fetch_fails ''unreachable'') ?ctx)) = 500"
    "body (response (onRequestPost (fetch_fails ''unreachable'') ?ctx)) = ErrorPayload ''API key is not configured.''"
    by (simp_all only: j simp_thms)
  have r': "response (onRequestPost (fetch_fails ''unreachable'') ?ctx) =
      \<lparr>status = 500, body = ErrorPayload ''API key is not configured.''\<rparr>"
    using r by (simp only: p)
  from inst k r' show ?thesis
    by (simp only: simp_thms)
qed

section \<open>A method other than POST\<close>

text \<open>
  Claim C7 says that \<^verbatim>\<open>handler\<close> and \<^verbatim>\<open>onRequest\<close> answer every request whose method
  is not POST with 405. Both check the credential before the method: a GET request to a
  deployment without the credential is answered 500.
\<close>

theorem method_counterexample:
  "''GET'' \<noteq> ''POST''
   \<and> sent (handler Undefined (sdk_fails ''unreachable'')
        \<lparr>req_method = ''GET'', req_body = analysis_request ''critique''\<rparr>) =
      Some \<lparr>status = 500,
         body = ErrorPayload
           ''API key is missing. Please add GEMINI_API_KEY to your Vercel Environment Variables.''\<rparr>
   \<and> status (response (onRequest (sdk_fails ''unreachable'')
        \<lparr>request_method = ''GET'', request_json = Inr (analysis_request ''critique''),
         env_GEMINI_API_KEY = Undefined\<rparr>)) = 500"
  by (simp add: handler_def sent_def onRequest_def reject_def)

text \<open>
  Claim C7, amended. When the credential is configured, \<^verbatim>\<open>handler\<close> and
  \<^verbatim>\<open>onRequest\<close> answer every request whose method is not POST with status 405 and the
  error \<^verbatim>\<open>Method Not Allowed (must be POST)\<close>, and issue no upstream call.
\<close>

theorem method_amended:
  "(truthy key \<and> req_method rq \<noteq> ''POST'' \<longrightarrow>
      sent (handler key generateContent rq) =
        Some \<lparr>status = 405, body = ErrorPayload ''Method Not Allowed (must be POST)''\<rparr> \<and>
      called (handler key generateContent rq) = [])
   \<and> (truthy (env_GEMINI_API_KEY ctx) \<and> request_method ctx \<noteq> ''POST'' \<longrightarrow>
      response (onRequest generateContent ctx) =
        \<lparr>status = 405, body = ErrorPayload ''Method Not Allowed (must be POST)''\<rparr> \<and>
      upstream_calls (onRequest generateContent ctx) = [])"
  by (simp add: handler_def sent_def called_def onRequest_def reject_def)

text \<open>A GET request with the credential configured, without a body.\<close>

theorem method_amended_witness:
  "truthy (Str ''key'') \<and> ''GET'' \<noteq> ''POST''
   \<and> sent (handler (Str ''key'') (sdk_fails ''unreachable'')
        \<lparr>req_method = ''GET'', req_body = Undefined\<rparr>) =
        Some \<lparr>status = 405, body = ErrorPayload ''Method Not Allowed (must be POST)''\<rparr>
   \<and> called (handler (Str ''key'') (sdk_fails ''unreachable'')
        \<lparr>req_method = ''GET'', req_body = Undefined\<rparr>) = []
   \<and> response (onRequest (sdk_fails ''unreachable'')
        \<lparr>request_method = ''GET'', request_json = Inl ''Unexpected end of JSON input'',
         env_GEMINI_API_KEY = Str ''key''\<rparr>) =
        \<lparr>status = 405, body = ErrorPayload ''Method Not Allowed (must be POST)''\<rparr>
   \<and> upstream_calls (onRequest (sdk_fails ''unreachable'')
        \<lparr>request_method = ''GET'', request_json = Inl ''Unexpected end of JSON input'',
         env_GEMINI_API_KEY = Str ''key''\<rparr>) = []"
proof -
  let ?rq = "\<lparr>req_method = ''GET'', req_body = Undefined\<rparr>"
  let ?ctx = "\<lparr>request_method = ''GET'', request_json = Inl ''Unexpected end of JSON input'',
         env_GEMINI_API_KEY = Str ''key''\<rparr>"
  have k: "truthy (Str ''key'')" "''GET'' \<noteq> ''POST''" by simp_all
  have s: "req_method ?rq = ''GET''" "request_method ?ctx = ''GET''" "env_GEMINI_API_KEY ?ctx = Str ''key''"
    by simp_all
  note inst = method_amended[of "Str ''key''" ?rq "sdk_fails ''unreachable''" ?ctx]
  from inst k show ?thesis
    by (simp only: s simp_thms)
qed

section \<open>The filters in the prompt\<close>

text \<open>
  Claim C8 says that filter text is in the prompt only when a location or a posting date
  is supplied, and that the prompt has no filter clause when both are absent. The
  \<^verbatim>\<open>jobs\<close> template of \<^verbatim>\<open>onRequestPost\<close> has its filter lines in every prompt: for a
  request without filters, the prompt it sends reads \<^verbatim>\<open>Location: "any"\<close> and
  \<^verbatim>\<open>Date Posted: "any"\<close>.
\<close>

theorem filter_clause_counterexample:
  "\<not> filters_supplied (property (analysis_request ''jobs'') ''location'')
        (property (analysis_request ''jobs'') ''datePosted'')
   \<and> map (systemInstruction \<circ> fetch_body)
       (upstream_calls (onRequestPost (fetch_fails ''fetch failed'')
          (cf_post (Str ''key'') (analysis_request ''jobs'')))) =
     [[jobs_template_1 @ ''any'' @ jobs_template_2 @ ''any'' @ jobs_template_3]]
   \<and> sublist ''**FILTER** your search based on these user-provided filters:''
       (jobs_template_1 @ ''any'' @ jobs_template_2 @ ''any'' @ jobs_template_3)
   \<and> sublist ''- Location: \"any\"''
       (jobs_template_1 @ ''any'' @ jobs_template_2 @ ''any'' @ jobs_template_3)
   \<and> sublist ''- Date Posted: \"any\"''
       (jobs_template_1 @ ''any'' @ jobs_template_2 @ ''any'' @ jobs_template_3)"
proof -
  have a: "\<not> filters_supplied (property (analysis_request ''jobs'') ''location'')
        (property (analysis_request ''jobs'') ''datePosted'')"
    by (simp add: filters_supplied_def analysis_request_def)
  have b: "map (systemInstruction \<circ> fetch_body)
       (upstream_calls (onRequestPost (fetch_fails ''fetch failed'')
          (cf_post (Str ''key'') (analysis_request ''jobs'')))) =
     [[jobs_template_1 @ ''any'' @ jobs_template_2 @ ''any'' @ jobs_template_3]]"
    by (simp add: onRequestPost_def jobs_prepare fetch_fails_def catch_pages_def fetch_call_def)
  have c: "sublist ''**FILTER** your search based on these user-provided filters:''
       (jobs_template_1 @ ''any'' @ jobs_template_2 @ ''any'' @ jobs_template_3)"
    using filter_line_in_jobs sublist_append by blast
  have "sublist (''- Location: \"'' @ ''any'' @ ''\"'')
      ([] @ jobs_template_1 @ ''any'' @ jobs_template_2 @ (''any'' @ jobs_template_3))"
    by (rule sublist_between[OF jobs_template_1_ends jobs_template_2_starts])
  then have d: "sublist ''- Location: \"any\"''
       (jobs_template_1 @ ''any'' @ jobs_template_2 @ ''any'' @ jobs_template_3)"
    by simp
  have "sublist (''- Date Posted: \"'' @ ''any'' @ ''\"'')
      ((jobs_template_1 @ ''any'') @ jobs_template_2 @ ''any'' @ jobs_template_3 @ [])"
    by (rule sublist_between[OF jobs_template_2_ends jobs_template_3_starts])
  then have e: "sublist ''- Date Posted: \"any\"''
       (jobs_template_1 @ ''any'' @ jobs_template_2 @ ''any'' @ jobs_template_3)"
    by simp
  from a b c d e show ?thesis by (simp only: simp_thms)
qed

text \<open>
  Claim C8, amended. Whenever \<^verbatim>\<open>getSystemPrompt\<close> (of either file) returns a prompt,
  the prompt has the filter clause if and only if the type is \<^verbatim>\<open>jobs\<close> or
  \<^verbatim>\<open>contacts\<close> and a filter is supplied: a truthy location, or a truthy posting date
  other than \<^verbatim>\<open>any\<close>. The posting date \<^verbatim>\<open>any\<close> gives what an absent one gives. A
  supplied location, and a supplied posting date with its first underscore replaced by a
  space, stand in the clause. A prompt is returned whenever the two filters are strings
  or absent. In \<^verbatim>\<open>onRequestPost\<close> the \<^verbatim>\<open>jobs\<close> and \<^verbatim>\<open>contacts\<close> prompts always carry
  their filter lines: a filter that is absent or empty is written there as \<^verbatim>\<open>"any"\<close>, a
  supplied one as it is, between the quotes of its line; and a prompt is built whenever
  the two filters are strings or absent.
\<close>

theorem filter_clause_amended:
  "(getSystemPrompt ty loc posted = Inr p \<longrightarrow>
      has_filter_clause p = (searching_type ty \<and> filters_supplied loc posted))
   \<and> (getSystemPrompt_cf ty loc posted = Inr p \<longrightarrow>
      has_filter_clause p = (searching_type ty \<and> filters_supplied loc posted))
   \<and> getSystemPrompt ty loc (Str ''any'') = getSystemPrompt ty loc Undefined
   \<and> getSystemPrompt_cf ty loc (Str ''any'') = getSystemPrompt_cf ty loc Undefined
   \<and> (searching_type ty \<and> truthy loc \<and> to_string loc = Inr l \<and>
        (getSystemPrompt ty loc posted = Inr p \<or> getSystemPrompt_cf ty loc posted = Inr p) \<longrightarrow>
        sublist ('' (Location: '' @ l @ '')'') p)
   \<and> (searching_type ty \<and> s \<noteq> [] \<and> s \<noteq> ''any'' \<and>
        (getSystemPrompt ty loc (Str s) = Inr p \<or> getSystemPrompt_cf ty loc (Str s) = Inr p) \<longrightarrow>
        sublist ('' (Posted: '' @ replace_first CHR ''_'' CHR '' '' s @ '')'') p)
   \<and> (string_or_absent loc \<and> string_or_absent posted \<longrightarrow>
        (\<exists>p. getSystemPrompt ty loc posted = Inr p) \<and>
        (\<exists>p. getSystemPrompt_cf ty loc posted = Inr p))
   \<and> (type d = Str ''jobs'' \<and> build_prompt d = Inr (q, ts) \<longrightarrow>
        sublist ''**FILTER** your search based on these user-provided filters:'' q \<and>
        (\<not> truthy (location d) \<longrightarrow> sublist ''- Location: \"any\"'' q) \<and>
        (\<not> truthy (datePosted d) \<longrightarrow> sublist ''- Date Posted: \"any\"'' q) \<and>
        (truthy (location d) \<and> to_string (location d) = Inr l \<longrightarrow>
           sublist (''- Location: \"'' @ l @ ''\"'') q) \<and>
        (truthy (datePosted d) \<and> to_string (datePosted d) = Inr s \<longrightarrow>
           sublist (''- Date Posted: \"'' @ s @ ''\"'') q))
   \<and> (type d = Str ''contacts'' \<and> build_prompt d = Inr (q, ts) \<longrightarrow>
        (\<not> truthy (location d) \<longrightarrow>
           sublist ''**FILTER** your search based on the user-provided location: \"any\"'' q) \<and>
        (truthy (location d) \<and> to_string (location d) = Inr l \<longrightarrow>
           sublist (''**FILTER** your search based on the user-provided location: \"'' @ l @ ''\"'') q))
   \<and> (searching_type (type d) \<and> string_or_absent (location d) \<and> string_or_absent (datePosted d) \<longrightarrow>
        (\<exists>q. build_prompt d = Inr (q, [google_search])))"
proof (intro conjI impI)
  assume "getSystemPrompt ty loc posted = Inr p"
  then show "has_filter_clause p = (searching_type ty \<and> filters_supplied loc posted)"
    by (rule getSystemPrompt_clause)
next
  assume "getSystemPrompt_cf ty loc posted = Inr p"
  then show "has_filter_clause p = (searching_type ty \<and> filters_supplied loc posted)"
    by (rule getSystemPrompt_cf_clause)
next
  show "getSystemPrompt ty loc (Str ''any'') = getSystemPrompt ty loc Undefined"
    by (simp add: getSystemPrompt_def filterString_any)
  show "getSystemPrompt_cf ty loc (Str ''any'') = getSystemPrompt_cf ty loc Undefined"
    by (simp add: getSystemPrompt_cf_def filterString_any)
next
  assume h: "searching_type ty \<and> truthy loc \<and> to_string loc = Inr l \<and>
        (getSystemPrompt ty loc posted = Inr p \<or> getSystemPrompt_cf ty loc posted = Inr p)"
  then obtain base fs where fs: "filterString loc posted = Inr fs" and p: "p = base @ fs"
    using searching_prompt[of ty loc posted p] by auto
  from h have t: "truthy loc" "to_string loc = Inr l" by simp_all
  show "sublist ('' (Location: '' @ l @ '')'') p"
    unfolding p by (rule location_shown[OF fs t])
next
  assume h: "searching_type ty \<and> s \<noteq> [] \<and> s \<noteq> ''any'' \<and>
        (getSystemPrompt ty loc (Str s) = Inr p \<or> getSystemPrompt_cf ty loc (Str s) = Inr p)"
  then obtain base fs where fs: "filterString loc (Str s) = Inr fs" and p: "p = base @ fs"
    using searching_prompt[of ty loc "Str s" p] by auto
  from h have t: "s \<noteq> []" "s \<noteq> ''any''" by simp_all
  show "sublist ('' (Posted: '' @ replace_first CHR ''_'' CHR '' '' s @ '')'') p"
    unfolding p by (rule posted_shown[OF fs t])
next
  assume h: "string_or_absent loc \<and> string_or_absent posted"
  then show "\<exists>p. getSystemPrompt ty loc posted = Inr p"
    by (intro getSystemPrompt_total) simp_all
  from h show "\<exists>p. getSystemPrompt_cf ty loc posted = Inr p"
    by (intro getSystemPrompt_total) simp_all
next
  assume h: "type d = Str ''jobs'' \<and> build_prompt d = Inr (q, ts)"
  then have j: "type d = Str ''jobs''" "build_prompt d = Inr (q, ts)" by simp_all
  show "sublist ''**FILTER** your search based on these user-provided filters:'' q"
    by (rule jobs_filter_header[OF j])
  {
    assume "\<not> truthy (location d)"
    then have "to_string (or_default (location d) ''any'') = Inr ''any''"
      by (rule to_string_or_default)
    from jobs_location_line[OF j this] show "sublist ''- Location: \"any\"'' q" by simp
  }
  {
    assume "\<not> truthy (datePosted d)"
    then have "to_string (or_default (datePosted d) ''any'') = Inr ''any''"
      by (rule to_string_or_default)
    from jobs_posted_line[OF j this] show "sublist ''- Date Posted: \"any\"'' q" by simp
  }
  {
    assume "truthy (location d) \<and> to_string (location d) = Inr l"
    then have "to_string (or_default (location d) ''any'') = Inr l"
      by (simp add: to_string_or_default)
    from jobs_location_line[OF j this] show "sublist (''- Location: \"'' @ l @ ''\"'') q" .
  }
  {
    assume "truthy (datePosted d) \<and> to_string (datePosted d) = Inr s"
    then have "to_string (or_default (datePosted d) ''any'') = Inr s"
      by (simp add: to_string_or_default)
    from jobs_posted_line[OF j this] show "sublist (''- Date Posted: \"'' @ s @ ''\"'') q" .
  }
next
  assume h: "type d = Str ''contacts'' \<and> build_prompt d = Inr (q, ts)"
  then have j: "type d = Str ''contacts''" "build_prompt d = Inr (q, ts)" by simp_all
  {
    assume "\<not> truthy (location d)"
    then have "to_string (or_default (location d) ''any'') = Inr ''any''"
      by (rule to_string_or_default)
    from contacts_location_line[OF j this]
    show "sublist ''**FILTER** your search based on the user-provided location: \"any\"'' q" by simp
  }
  {
    assume "truthy (location d) \<and> to_string (location d) = Inr l"
    then have "to_string (or_default (location d) ''any'') = Inr l"
      by (simp add: to_string_or_default)
    from contacts_location_line[OF j this]
    show "sublist (''**FILTER** your search based on the user-provided location: \"'' @ l @ ''\"'') q" .
  }
next
  assume "searching_type (type d) \<and> string_or_absent (location d) \<and> string_or_absent (datePosted d)"
  then show "\<exists>q. build_prompt d = Inr (q, [google_search])"
    by (intro build_prompt_total) simp_all
qed

text \<open>
  A \<^verbatim>\<open>jobs\<close> request for Berlin and the past week, in both builders; requests without
  filters; and a \<^verbatim>\<open>critique\<close> request, whose prompt never has the clause.
\<close>

theorem filter_clause_amended_witness:
  "getSystemPrompt (Str ''jobs'') (Str ''Berlin'') (Str ''past_week'') =
     Inr (jobs_instructions @
       ''\<newline>\<newline>**CRITICAL: You MUST adhere to these filters:  (Location: Berlin) (Posted: past week)**'')
   \<and> has_filter_clause (jobs_instructions @
       ''\<newline>\<newline>**CRITICAL: You MUST adhere to these filters:  (Location: Berlin) (Posted: past week)**'')
   \<and> sublist '' (Location: Berlin)'' (jobs_instructions @
       ''\<newline>\<newline>**CRITICAL: You MUST adhere to these filters:  (Location: Berlin) (Posted: past week)**'')
   \<and> sublist '' (Posted: past week)'' (jobs_instructions @
       ''\<newline>\<newline>**CRITICAL: You MUST adhere to these filters:  (Location: Berlin) (Posted: past week)**'')
   \<and> getSystemPrompt_cf (Str ''contacts'') Undefined (Str ''any'') = Inr contacts_instructions
   \<and> \<not> has_filter_clause contacts_instructions
   \<and> (\<exists>p. getSystemPrompt (Str ''critique'') (Str ''Berlin'') Null = Inr p)
   \<and> build_prompt \<lparr>resumeText = Str jane, type = Str ''jobs'',
        location = Str ''Berlin'', datePosted = Str ''past_week''\<rparr> =
       Inr (jobs_template_1 @ ''Berlin'' @ jobs_template_2 @ ''past_week'' @ jobs_template_3,
            [google_search])
   \<and> sublist ''- Location: \"Berlin\"''
       (jobs_template_1 @ ''Berlin'' @ jobs_template_2 @ ''past_week'' @ jobs_template_3)
   \<and> sublist ''- Date Posted: \"past_week\"''
       (jobs_template_1 @ ''Berlin'' @ jobs_template_2 @ ''past_week'' @ jobs_template_3)
   \<and> build_prompt \<lparr>resumeText = Str jane, type = Str ''jobs'',
        location = Str [], datePosted = Undefined\<rparr> =
       Inr (jobs_template_1 @ ''any'' @ jobs_template_2 @ ''any'' @ jobs_template_3, [google_search])
   \<and> sublist ''**FILTER** your search based on these user-provided filters:''
       (jobs_template_1 @ ''any'' @ jobs_template_2 @ ''any'' @ jobs_template_3)
   \<and> sublist ''- Location: \"any\"''
       (jobs_template_1 @ ''any'' @ jobs_template_2 @ ''any'' @ jobs_template_3)
   \<and> sublist ''- Date Posted: \"any\"''
       (jobs_template_1 @ ''any'' @ jobs_template_2 @ ''any'' @ jobs_template_3)
   \<and> build_prompt \<lparr>resumeText = Str jane, type = Str ''contacts'',
        location = Null, datePosted = Undefined\<rparr> =
       Inr (contacts_template_1 @ ''any'' @ contacts_template_2, [google_search])
   \<and> sublist ''**FILTER** your search based on the user-provided location: \"any\"''
       (contacts_template_1 @ ''any'' @ contacts_template_2)"
proof -
  let ?fs = "''\<newline>\<newline>**CRITICAL: You MUST adhere to these filters:  (Location: Berlin) (Posted: past week)**''"
  let ?p = "jobs_instructions @ ?fs"
  let ?d1 = "\<lparr>resumeText = Str jane, type = Str ''jobs'',
        location = Str ''Berlin'', datePosted = Str ''past_week''\<rparr>"
  let ?q1 = "jobs_template_1 @ ''Berlin'' @ jobs_template_2 @ ''past_week'' @ jobs_template_3"
  let ?d2 = "\<lparr>resumeText = Str jane, type = Str ''jobs'',
        location = Str [], datePosted = Undefined\<rparr>"
  let ?q2 = "jobs_template_1 @ ''any'' @ jobs_template_2 @ ''any'' @ jobs_template_3"
  let ?d3 = "\<lparr>resumeText = Str jane, type = Str ''contacts'',
        location = Null, datePosted = Undefined\<rparr>"
  let ?q3 = "contacts_template_1 @ ''any'' @ contacts_template_2"
  have g1: "getSystemPrompt (Str ''jobs'') (Str ''Berlin'') (Str ''past_week'') = Inr ?p"
    by (simp add: getSystemPrompt_def filterString_def location_filter_def posted_filter_def
        replace_underscore_def and_then_Inr)
  have g2: "getSystemPrompt_cf (Str ''contacts'') Undefined (Str ''any'') = Inr contacts_instructions"
    by (simp add: getSystemPrompt_cf_def filterString_def location_filter_def posted_filter_def
        and_then_Inr)
  have b1: "build_prompt ?d1 = Inr (?q1, [google_search])"
    by (simp add: build_prompt_def or_default_def and_then_Inr)
  have b2: "build_prompt ?d2 = Inr (?q2, [google_search])"
    by (simp add: build_prompt_def or_default_def and_then_Inr)
  have b3: "build_prompt ?d3 = Inr (?q3, [google_search])"
    by (simp add: build_prompt_def or_default_def and_then_Inr)
  have s: "searching_type (Str ''jobs'')" "searching_type (Str ''contacts'')"
    "filters_supplied (Str ''Berlin'') (Str ''past_week'')"
    "\<not> filters_supplied Undefined (Str ''any'')"
    "truthy (Str ''Berlin'')" "to_string (Str ''Berlin'') = Inr ''Berlin''"
    "''past_week'' \<noteq> []" "''past_week'' \<noteq> ''any''"
    "string_or_absent (Str ''Berlin'')" "string_or_absent Null"
    "replace_first CHR ''_'' CHR '' '' ''past_week'' = ''past week''"
    by (simp_all add: searching_type_def filters_supplied_def string_or_absent_def)
  note i1 = filter_clause_amended[where ty = "Str ''jobs''" and loc = "Str ''Berlin''"
      and posted = "Str ''past_week''" and p = ?p and l = "''Berlin''" and s = "''past_week''"
      and d = ?d1 and q = ?q1 and ts = "[google_search]"]
  note i2 = filter_clause_amended[where ty = "Str ''contacts''" and loc = Undefined
      and posted = "Str ''any''" and p = contacts_instructions
      and d = ?d2 and q = ?q2 and ts = "[google_search]"]
  note i3 = filter_clause_amended[where ty = "Str ''critique''" and loc = "Str ''Berlin''"
      and posted = Null and d = ?d3 and q = ?q3 and ts = "[google_search]"]
  have a1: "has_filter_clause ?p"
    using i1[THEN conjunct1] g1 s(1,3) by (simp only: simp_thms)
  have a2: "sublist ('' (Location: '' @ ''Berlin'' @ '')'') ?p"
    using i1[THEN conjunct2, THEN conjunct2, THEN conjunct2, THEN conjunct2, THEN conjunct1]
      g1 s(1,5,6) by (simp only: simp_thms)
  have a3: "sublist ('' (Posted: '' @ replace_first CHR ''_'' CHR '' '' ''past_week'' @ '')'') ?p"
    using i1[THEN conjunct2, THEN conjunct2, THEN conjunct2, THEN conjunct2, THEN conjunct2,
        THEN conjunct1] g1 s(1,7,8) by (simp only: simp_thms)
  have a4: "\<not> has_filter_clause contacts_instructions"
    using i2[THEN conjunct2, THEN conjunct1] g2 s(2,4) by (simp only: simp_thms)
  have a5: "\<exists>p. getSystemPrompt (Str ''critique'') (Str ''Berlin'') Null = Inr p"
    using i3[THEN conjunct2, THEN conjunct2, THEN conjunct2, THEN conjunct2, THEN conjunct2,
        THEN conjunct2, THEN conjunct1] s(9,10) by (simp only: simp_thms)
  have j1: "type ?d1 = Str ''jobs''" "truthy (location ?d1)" "to_string (location ?d1) = Inr ''Berlin''"
    "truthy (datePosted ?d1)" "to_string (datePosted ?d1) = Inr ''past_week''"
    by simp_all
  have j2: "type ?d2 = Str ''jobs''" "\<not> truthy (location ?d2)" "\<not> truthy (datePosted ?d2)"
    by simp_all
  have j3: "type ?d3 = Str ''contacts''" "\<not> truthy (location ?d3)"
    by simp_all
  have a6: "sublist (''- Location: \"'' @ ''Berlin'' @ ''\"'') ?q1 \<and>
      sublist (''- Date Posted: \"'' @ ''past_week'' @ ''\"'') ?q1"
    using i1[THEN conjunct2, THEN conjunct2, THEN conjunct2, THEN conjunct2, THEN conjunct2,
        THEN conjunct2, THEN conjunct2, THEN conjunct1] j1 b1 by (simp only: simp_thms)
  have a7: "sublist ''**FILTER** your search based on these user-provided filters:'' ?q2 \<and>
      sublist ''- Location: \"any\"'' ?q2 \<and> sublist ''- Date Posted: \"any\"'' ?q2"
    using i2[THEN conjunct2, THEN conjunct2, THEN conjunct2, THEN conjunct2, THEN conjunct2,
        THEN conjunct2, THEN conjunct2, THEN conjunct1] j2 b2 by (simp only: simp_thms)
  have a8: "sublist ''**FILTER** your search based on the user-provided location: \"any\"'' ?q3"
    using i3[THEN conjunct2, THEN conjunct2, THEN conjunct2, THEN conjunct2, THEN conjunct2,
        THEN conjunct2, THEN conjunct2, THEN conjunct2, THEN conjunct1] j3 b3
    by (simp only: simp_thms)
  from a2 a3 a6 have a9: "sublist '' (Location: Berlin)'' ?p" "sublist '' (Posted: past week)'' ?p"
    "sublist ''- Location: \"Berlin\"'' ?q1" "sublist ''- Date Posted: \"past_week\"'' ?q1"
    by (simp_all add: s(11))
  from g1 g2 b1 b2 b3 a1 a4 a5 a7 a8 a9 show ?thesis
    by (simp only: simp_thms)
qed

section \<open>The shape of the response body\<close>

text \<open>
  Claim C9 says that a response body is the full payload \<^verbatim>\<open>{text, sources}\<close> or the
  error payload \<^verbatim>\<open>{error}\<close>, and never a partial result. On the response of claim C5,
  \<^verbatim>\<open>handler\<close> and \<^verbatim>\<open>onRequest\<close> answer 200 with a body whose only property is
  \<^verbatim>\<open>sources\<close>. The lemmas \<open>pages_body_keys\<close>, \<open>generate_body_keys\<close> and
  \<open>at_most_one_call\<close> above give the part of the claim that holds: \<^verbatim>\<open>onRequestPost\<close>
  sends one of the two shapes, no body carries both \<^verbatim>\<open>text\<close> and \<^verbatim>\<open>error\<close>, and no
  handler calls the provider twice.
\<close>

theorem partial_payload:
  "sent (handler (Str ''key'') (sdk_returns (answer (Obj []) (Obj [])))
        (vercel_post (analysis_request ''critique''))) \<noteq> None
   \<and> map_option status (sent (handler (Str ''key'') (sdk_returns (answer (Obj []) (Obj [])))
        (vercel_post (analysis_request ''critique'')))) = Some 200
   \<and> map_option (body_keys \<circ> body) (sent (handler (Str ''key'') (sdk_returns (answer (Obj []) (Obj [])))
        (vercel_post (analysis_request ''critique'')))) = Some [''sources'']
   \<and> status (response (onRequest (sdk_returns (answer (Obj []) (Obj [])))
        (cf_post (Str ''key'') (analysis_request ''critique'')))) = 200
   \<and> body_keys (body (response (onRequest (sdk_returns (answer (Obj []) (Obj [])))
        (cf_post (Str ''key'') (analysis_request ''critique''))))) = [''sources'']"
proof -
  have e: "extract_sources (property
      (Obj [(''content'', Obj [(''parts'', Arr [Obj []])]), (''groundingMetadata'', Obj [])])
      ''groundingMetadata'') = Inr []"
    by (simp add: extract_sources_def)
  have g: "generate l (sdk_returns (answer (Obj []) (Obj []))) call =
      \<lparr>response = \<lparr>status = 200, body = Payload Undefined []\<rparr>,
       upstream_calls = [call], console_error = []\<rparr>" for l call
    by (rule generate_success[OF _ no_text_response e]) (simp add: sdk_returns_def)
  show ?thesis
    by (simp add: handler_critique onRequest_critique g sent_def body_keys_def)
qed

section \<open>The order of the sources\<close>

text \<open>
  Claim C10. When a handler answers with a payload, it made exactly one call, the call
  returned a response, and the \<open>sources\<close> of the payload are these: of the grounding
  attributions of the first candidate of that response, in the order in which the
  response lists them, those whose \<^verbatim>\<open>web\<close> object has a truthy \<open>uri\<close> and a truthy
  \<open>title\<close>, each given as the pair of its own \<^verbatim>\<open>web.uri\<close> and \<^verbatim>\<open>web.title\<close>.
\<close>

theorem sources_keep_order:
  "(body (response (onRequestPost fetch ctx)) = Payload t srcs \<longrightarrow>
      (\<exists>call resp r. upstream_calls (onRequestPost fetch ctx) = [call] \<and>
         fetch call = Inr resp \<and> ok resp \<and> json resp = Inr r \<and>
         srcs = map (\<lambda>a. \<lparr>uri = property (property a ''web'') ''uri'',
                           title = property (property a ''web'') ''title''\<rparr>)
                  (filter has_uri_and_title
                     (attributions (property (first_element (property r ''candidates''))
                        ''groundingMetadata'')))))
   \<and> (map_option body (sent (handler key generateContent rq)) = Some (Payload t srcs) \<longrightarrow>
      (\<exists>call r. called (handler key generateContent rq) = [call] \<and>
         generateContent call = Inr r \<and>
         srcs = map (\<lambda>a. \<lparr>uri = property (property a ''web'') ''uri'',
                           title = property (property a ''web'') ''title''\<rparr>)
                  (filter has_uri_and_title
                     (attributions (property (first_element (property r ''candidates''))
                        ''groundingMetadata'')))))
   \<and> (body (response (onRequest generateContent ctx)) = Payload t srcs \<longrightarrow>
      (\<exists>call r. upstream_calls (onRequest generateContent ctx) = [call] \<and>
         generateContent call = Inr r \<and>
         srcs = map (\<lambda>a. \<lparr>uri = property (property a ''web'') ''uri'',
                           title = property (property a ''web'') ''title''\<rparr>)
                  (filter has_uri_and_title
                     (attributions (property (first_element (property r ''candidates''))
                        ''groundingMetadata'')))))"
proof (intro conjI impI)
  assume "body (response (onRequestPost fetch ctx)) = Payload t srcs"
  from pages_payload[OF this] obtain call resp r c where
    h: "upstream_calls (onRequestPost fetch ctx) = [call]" "fetch call = Inr resp" "ok resp"
       "json resp = Inr r" "first_candidate r = Inr c"
       "extract_sources (property c ''groundingMetadata'') = Inr srcs"
    by blast
  from extract_sources_Inr[OF h(6)] first_candidate_Inr[OF h(5)] h(1-4)
  show "\<exists>call resp r. upstream_calls (onRequestPost fetch ctx) = [call] \<and>
         fetch call = Inr resp \<and> ok resp \<and> json resp = Inr r \<and>
         srcs = map (\<lambda>a. \<lparr>uri = property (property a ''web'') ''uri'',
                           title = property (property a ''web'') ''title''\<rparr>)
                  (filter has_uri_and_title
                     (attributions (property (first_element (property r ''candidates''))
                        ''groundingMetadata'')))"
    by auto
next
  assume "map_option body (sent (handler key generateContent rq)) = Some (Payload t srcs)"
  from handler_payload[OF this] obtain call r c where
    h: "called (handler key generateContent rq) = [call]" "generateContent call = Inr r"
       "first_part_text r = Inr (t, c)" "extract_sources (property c ''groundingMetadata'') = Inr srcs"
    by blast
  from extract_sources_Inr[OF h(4)] first_part_candidate[OF h(3)] h(1,2)
  show "\<exists>call r. called (handler key generateContent rq) = [call] \<and>
         generateContent call = Inr r \<and>
         srcs = map (\<lambda>a. \<lparr>uri = property (property a ''web'') ''uri'',
                           title = property (property a ''web'') ''title''\<rparr>)
                  (filter has_uri_and_title
                     (attributions (property (first_element (property r ''candidates''))
                        ''groundingMetadata'')))"
    by auto
next
  assume "body (response (onRequest generateContent ctx)) = Payload t srcs"
  from onRequest_payload[OF this] obtain call r c where
    h: "upstream_calls (onRequest generateContent ctx) = [call]" "generateContent call = Inr r"
       "first_part_text r = Inr (t, c)" "extract_sources (property c ''groundingMetadata'') = Inr srcs"
    by blast
  from extract_sources_Inr[OF h(4)] first_part_candidate[OF h(3)] h(1,2)
  show "\<exists>call r. upstream_calls (onRequest generateContent ctx) = [call] \<and>
         generateContent call = Inr r \<and>
         srcs = map (\<lambda>a. \<lparr>uri = property (property a ''web'') ''uri'',
                           title = property (property a ''web'') ''title''\<rparr>)
                  (filter has_uri_and_title
                     (attributions (property (first_element (property r ''candidates''))
                        ''groundingMetadata'')))"
    by auto
qed

text \<open>
  Four attributions, the second without a title and the third without a \<^verbatim>\<open>web\<close> object:
  the first and the fourth are returned, in this order, each with its own \<open>uri\<close> and
  \<open>title\<close>.
\<close>

theorem sources_keep_order_witness:
  "body (response (onRequestPost
       (fetch_returns (answer (Obj [(''text'', Str ''Found.'')])
          (Obj [(''groundingAttributions'',
                 Arr [cited ''u1'' ''A'', cited ''u2'' [], Obj [], cited ''u3'' ''C''])])))
       (cf_post (Str ''key'') (analysis_request ''critique'')))) =
     Payload (Str ''Found.'')
       [\<lparr>uri = Str ''u1'', title = Str ''A''\<rparr>, \<lparr>uri = Str ''u3'', title = Str ''C''\<rparr>]
   \<and> map_option body (sent (handler (Str ''key'')
       (sdk_returns (answer (Obj [(''text'', Str ''Found.'')])
          (Obj [(''groundingAttributions'',
                 Arr [cited ''u1'' ''A'', cited ''u2'' [], Obj [], cited ''u3'' ''C''])])))
       (vercel_post (analysis_request ''critique'')))) =
     Some (Payload (Str ''Found.'')
       [\<lparr>uri = Str ''u1'', title = Str ''A''\<rparr>, \<lparr>uri = Str ''u3'', title = Str ''C''\<rparr>])
   \<and> body (response (onRequest
       (sdk_returns (answer (Obj [(''text'', Str ''Found.'')])
          (Obj [(''groundingAttributions'',
                 Arr [cited ''u1'' ''A'', cited ''u2'' [], Obj [], cited ''u3'' ''C''])])))
       (cf_post (Str ''key'') (analysis_request ''critique'')))) =
     Payload (Str ''Found.'')
       [\<lparr>uri = Str ''u1'', title = Str ''A''\<rparr>, \<lparr>uri = Str ''u3'', title = Str ''C''\<rparr>]
   \<and> [\<lparr>uri = Str ''u1'', title = Str ''A''\<rparr>, \<lparr>uri = Str ''u3'', title = Str ''C''\<rparr>] =
     map (\<lambda>a. \<lparr>uri = property (property a ''web'') ''uri'',
                 title = property (property a ''web'') ''title''\<rparr>)
       (filter has_uri_and_title
          (attributions (property (first_element (property
             (answer (Obj [(''text'', Str ''Found.'')])
                (Obj [(''groundingAttributions'',
                       Arr [cited ''u1'' ''A'', cited ''u2'' [], Obj [], cited ''u3'' ''C''])]))
             ''candidates'')) ''groundingMetadata'')))"
proof -
  let ?gm = "Obj [(''groundingAttributions'',
                 Arr [cited ''u1'' ''A'', cited ''u2'' [], Obj [], cited ''u3'' ''C''])]"
  let ?r = "answer (Obj [(''text'', Str ''Found.'')]) ?gm"
  let ?srcs = "[\<lparr>uri = Str ''u1'', title = Str ''A''\<rparr>, \<lparr>uri = Str ''u3'', title = Str ''C''\<rparr>]"
  let ?ordered = "\<lambda>r. ?srcs =
     map (\<lambda>a. \<lparr>uri = property (property a ''web'') ''uri'',
                 title = property (property a ''web'') ''title''\<rparr>)
       (filter has_uri_and_title
          (attributions (property (first_element (property r ''candidates'')) ''groundingMetadata'')))"
  have ex: "extract_sources ?gm = Inr ?srcs"
    by (simp add: extract_sources_def to_source_def read_def nullish_def cited_def
        and_then_Inr valid_source_def)
  have h1: "body (response (onRequestPost (fetch_returns ?r)
      (cf_post (Str ''key'') (analysis_request ''critique'')))) = Payload (Str ''Found.'') ?srcs"
    by (simp add: critique_answers(1)[OF ex] or_default_def)
  have h2: "map_option body (sent (handler (Str ''key'') (sdk_returns ?r)
      (vercel_post (analysis_request ''critique'')))) = Some (Payload (Str ''Found.'') ?srcs)"
    by (simp add: critique_answers(2)[OF ex])
  have h3: "body (response (onRequest (sdk_returns ?r)
      (cf_post (Str ''key'') (analysis_request ''critique'')))) = Payload (Str ''Found.'') ?srcs"
    by (simp add: critique_answers(3)[OF ex])
  note inst = sources_keep_order[where fetch = "fetch_returns ?r"
      and ctx = "cf_post (Str ''key'') (analysis_request ''critique'')"
      and t = "Str ''Found.''" and srcs = ?srcs and key = "Str ''key''"
      and generateContent = "sdk_returns ?r" and rq = "vercel_post (analysis_request ''critique'')"]
  have "\<exists>call resp r. upstream_calls (onRequestPost (fetch_returns ?r)
        (cf_post (Str ''key'') (analysis_request ''critique''))) = [call] \<and>
      fetch_returns ?r call = Inr resp \<and> ok resp \<and> json resp = Inr r \<and> ?ordered r"
    by (rule inst[THEN conjunct1, THEN mp, OF h1])
  then have e1: "?ordered ?r"
    by (auto simp: fetch_returns_def)
  have "\<exists>call r. called (handler (Str ''key'') (sdk_returns ?r)
        (vercel_post (analysis_request ''critique''))) = [call] \<and>
      sdk_returns ?r call = Inr r \<and> ?ordered r"
    by (rule inst[THEN conjunct2, THEN conjunct1, THEN mp, OF h2])
  then have e2: "?ordered ?r"
    by (auto simp: sdk_returns_def)
  have "\<exists>call r. upstream_calls (onRequest (sdk_returns ?r)
        (cf_post (Str ''key'') (analysis_request ''critique''))) = [call] \<and>
      sdk_returns ?r call = Inr r \<and> ?ordered r"
    by (rule inst[THEN conjunct2, THEN conjunct2, THEN mp, OF h3])
  then have e3: "?ordered ?r"
    by (auto simp: sdk_returns_def)
  from h1 h2 h3 e1 e2 e3 show ?thesis by (simp only: simp_thms)
qed

end
